theory Spec2Isabelle
  imports Main "HOL-Library.Char_ord" "HOL-Library.List_Lexorder"
begin

section \<open>Data model (core/models.py)\<close>

type_synonym tenant_id = nat
type_synonym user_id = nat
type_synonym time = nat

text \<open>\<^verbatim>\<open>UserProfile.ROLE_CHOICES\<close>, \<^verbatim>\<open>Complaint.STATUS_CHOICES\<close>, \<^verbatim>\<open>Complaint.PRIORITY_CHOICES\<close>
  and \<^verbatim>\<open>AuditLog.ACTION_CHOICES\<close>: the stored strings, as enumerations.\<close>

datatype role = ROLE_CONSUMER | ROLE_HELPDESK | ROLE_SUPPORT | ROLE_MANAGER | ROLE_ADMIN

datatype status = STATUS_OPEN | STATUS_IN_PROGRESS | STATUS_RESOLVED | STATUS_CLOSED

datatype priority = PRIORITY_LOW | PRIORITY_MEDIUM | PRIORITY_HIGH

datatype action = ACTION_CREATED | ACTION_STATUS_CHANGE | ACTION_ASSIGNED
  | ACTION_RESOLUTION_ADDED | ACTION_CLOSED

record Tenant =
  tenant_name :: string
  slug :: string
  is_active :: bool

record UserProfile =
  profile_tenant :: tenant_id
  profile_role :: role

text \<open>A Django \<^verbatim>\<open>User\<close> row; \<open>profile\<close> is \<open>None\<close> when \<^verbatim>\<open>hasattr(user, 'profile')\<close> is false.\<close>

record User =
  uid :: user_id
  username :: string
  profile :: "UserProfile option"

record Complaint =
  tenant :: tenant_id
  reference_number :: string
  title :: string
  description :: string
  category :: string
  priority :: priority
  status :: status
  submitted_by :: "user_id option"
  logged_by :: "user_id option"
  assigned_to :: "user_id option"
  resolution_notes :: string
  created_at :: time
  updated_at :: time
  resolved_at :: "time option"
  closed_at :: "time option"

record AuditLog =
  log_tenant :: tenant_id
  log_complaint :: nat
  log_user :: "user_id option"
  log_action :: action
  details :: string
  old_value :: string
  new_value :: string
  log_created_at :: time

text \<open>The persisted store: one table per model. Complaint rows are kept with their
  primary keys in insertion order; \<open>next_pk\<close> is the table's auto-increment counter.
  Audit rows are kept in insertion order, the newest in front; reading them applies the
  model's \<^verbatim>\<open>ordering = ['-created_at']\<close>. A \<open>char\<close> of a text stands for a code point
  below 256.\<close>

record store =
  tenants :: "tenant_id \<rightharpoonup> Tenant"
  users :: "User list"
  complaints :: "(nat \<times> Complaint) list"
  audit_logs :: "AuditLog list"
  next_pk :: nat

text \<open>What a request handler reads from outside the store: the clock
  (\<^verbatim>\<open>timezone.now()\<close>, \<^verbatim>\<open>auto_now\<close>, \<^verbatim>\<open>auto_now_add\<close>; one reading per request) and the
  text of the next \<^verbatim>\<open>uuid.uuid4()\<close>.\<close>

record env =
  now :: time
  uuid4 :: string

subsection \<open>Stored strings and display names\<close>

fun status_value :: "status \<Rightarrow> string" where
  "status_value STATUS_OPEN = ''open''"
| "status_value STATUS_IN_PROGRESS = ''in_progress''"
| "status_value STATUS_RESOLVED = ''resolved''"
| "status_value STATUS_CLOSED = ''closed''"

fun get_status_display :: "status \<Rightarrow> string" where
  "get_status_display STATUS_OPEN = ''Open''"
| "get_status_display STATUS_IN_PROGRESS = ''In Progress''"
| "get_status_display STATUS_RESOLVED = ''Resolved''"
| "get_status_display STATUS_CLOSED = ''Closed''"

definition status_of_value :: "string \<Rightarrow> status option" where
  "status_of_value v =
     (if v = ''open'' then Some STATUS_OPEN
      else if v = ''in_progress'' then Some STATUS_IN_PROGRESS
      else if v = ''resolved'' then Some STATUS_RESOLVED
      else if v = ''closed'' then Some STATUS_CLOSED
      else None)"

definition priority_of_value :: "string \<Rightarrow> priority option" where
  "priority_of_value v =
     (if v = ''low'' then Some PRIORITY_LOW
      else if v = ''medium'' then Some PRIORITY_MEDIUM
      else if v = ''high'' then Some PRIORITY_HIGH
      else None)"

subsection \<open>UserProfile predicates\<close>

definition is_consumer :: "UserProfile \<Rightarrow> bool" where
  "is_consumer p = (profile_role p = ROLE_CONSUMER)"

definition is_helpdesk :: "UserProfile \<Rightarrow> bool" where
  "is_helpdesk p = (profile_role p = ROLE_HELPDESK)"

definition is_support :: "UserProfile \<Rightarrow> bool" where
  "is_support p = (profile_role p = ROLE_SUPPORT)"

definition is_manager :: "UserProfile \<Rightarrow> bool" where
  "is_manager p = (profile_role p = ROLE_MANAGER)"

definition is_admin :: "UserProfile \<Rightarrow> bool" where
  "is_admin p = (profile_role p = ROLE_ADMIN)"

definition is_staff_member :: "UserProfile \<Rightarrow> bool" where
  "is_staff_member p =
     (profile_role p \<in> set [ROLE_HELPDESK, ROLE_SUPPORT, ROLE_MANAGER, ROLE_ADMIN])"

subsection \<open>Complaint methods\<close>

text \<open>\<^verbatim>\<open>str.upper\<close> on the ASCII letters; slugs and UUID texts are ASCII.\<close>

definition upper_char :: "char \<Rightarrow> char" where
  "upper_char c =
     (let n = (of_char c :: nat)
      in if 97 \<le> n \<and> n \<le> 122 then char_of (n - 32) else c)"

definition upper :: "string \<Rightarrow> string" where
  "upper s = map upper_char s"

text \<open>\<^verbatim>\<open>Complaint._generate_reference_number\<close>: the tenant's slug, upper-cased and cut to
  three characters, a dash, and the first eight characters of a fresh UUID, upper-cased. The
  foreign key guarantees that the tenant of a complaint has a row. For a tenant id without a
  row, which the source cannot meet (reading \<^verbatim>\<open>self.tenant\<close> would raise), the definition
  takes the source's alternative \<^verbatim>\<open>'CMP'\<close>.\<close>

definition generate_reference_number :: "env \<Rightarrow> store \<Rightarrow> Complaint \<Rightarrow> string" where
  "generate_reference_number e s c =
     (let prefix = (case tenants s (tenant c) of
                      Some t \<Rightarrow> take 3 (upper (slug t))
                    | None \<Rightarrow> ''CMP'');
          unique_id = upper (take 8 (uuid4 e))
      in prefix @ ''-'' @ unique_id)"

text \<open>\<^verbatim>\<open>Complaint.save\<close>, the part before the row is written: the reference number is
  generated when empty, \<open>resolved_at\<close> and \<open>closed_at\<close> are stamped when the status
  asks for them and they are unset, and \<^verbatim>\<open>auto_now\<close> refreshes \<open>updated_at\<close>.\<close>

definition save :: "env \<Rightarrow> store \<Rightarrow> Complaint \<Rightarrow> Complaint" where
  "save e s c =
     (let c1 = (if reference_number c = []
                then c\<lparr>reference_number := generate_reference_number e s c\<rparr> else c);
          c2 = (if status c1 = STATUS_RESOLVED \<and> resolved_at c1 = None
                then c1\<lparr>resolved_at := Some (now e)\<rparr> else c1);
          c3 = (if status c2 = STATUS_CLOSED \<and> closed_at c2 = None
                then c2\<lparr>closed_at := Some (now e)\<rparr> else c2)
      in c3\<lparr>updated_at := now e\<rparr>)"

text \<open>\<^verbatim>\<open>Complaint.can_update_status\<close>: the table of valid transitions.\<close>

fun valid_transitions :: "status \<Rightarrow> status list" where
  "valid_transitions STATUS_OPEN = [STATUS_IN_PROGRESS]"
| "valid_transitions STATUS_IN_PROGRESS = [STATUS_RESOLVED, STATUS_OPEN]"
| "valid_transitions STATUS_RESOLVED = [STATUS_CLOSED, STATUS_IN_PROGRESS]"
| "valid_transitions STATUS_CLOSED = []"

definition can_update_status :: "Complaint \<Rightarrow> status \<Rightarrow> bool" where
  "can_update_status c new_status = (new_status \<in> set (valid_transitions (status c)))"

section \<open>Requests, forms and responses\<close>

datatype http_method = GET | POST

text \<open>\<^verbatim>\<open>request.POST\<close>: one optional entry for each form field that a view reads. Text
  fields carry the raw submitted text; the two user choices carry the submitted primary key.\<close>

record form_data =
  post_status :: "string option"
  post_assigned_to :: "user_id option"
  post_resolution_notes :: "string option"
  post_title :: "string option"
  post_description :: "string option"
  post_category :: "string option"
  post_priority :: "string option"
  post_submitted_by :: "user_id option"

text \<open>\<open>user\<close> is \<open>None\<close> for Django's \<^verbatim>\<open>AnonymousUser\<close>.\<close>

record request =
  user :: "User option"
  http_method :: http_method
  POST_data :: form_data

datatype message = messages_success string | messages_error string

text \<open>The template context of \<^verbatim>\<open>core/complaint_detail.html\<close>.\<close>

record detail_context =
  ctx_complaint :: Complaint
  ctx_audit_logs :: "AuditLog list"
  ctx_support_staff :: "User list"
  ctx_can_assign :: bool
  ctx_can_update_status :: bool
  ctx_can_add_resolution :: bool
  ctx_can_close :: bool

text \<open>What a view returns to the caller. \<open>Http404\<close> is the response to the exception
  raised by \<^verbatim>\<open>get_object_or_404\<close>; \<open>server_error\<close> is the response to any other
  uncaught exception.\<close>

datatype response =
    Http404
  | HttpResponseForbidden string
  | redirect_login
  | redirect_dashboard
  | redirect_complaint_detail nat
  | render_complaint_detail detail_context
  | render_complaint_form
  | render_complaint_close_confirm Complaint
  | server_error

type_synonym result = "store \<times> message list \<times> response"

type_synonym 'a view = "env \<Rightarrow> store \<Rightarrow> request \<Rightarrow> 'a \<Rightarrow> result"

subsection \<open>Store access\<close>

definition get_user :: "store \<Rightarrow> user_id \<Rightarrow> User option" where
  "get_user s u = find (\<lambda>x. uid x = u) (users s)"

text \<open>\<^verbatim>\<open>get_object_or_404(Complaint, pk=pk, tenant=profile.tenant)\<close>; \<open>None\<close> stands for
  the raised \<^verbatim>\<open>Http404\<close>.\<close>

definition get_object_or_404 :: "store \<Rightarrow> nat \<Rightarrow> tenant_id \<Rightarrow> Complaint option" where
  "get_object_or_404 s pk t =
     (case map_of (complaints s) pk of
        None \<Rightarrow> None
      | Some c \<Rightarrow> if tenant c = t then Some c else None)"

text \<open>The row write at the end of \<^verbatim>\<open>Complaint.save\<close> for a complaint that has a row.\<close>

definition update_complaint :: "nat \<Rightarrow> Complaint \<Rightarrow> store \<Rightarrow> store" where
  "update_complaint pk c s =
     s\<lparr>complaints := map (\<lambda>(k, v). if k = pk then (k, c) else (k, v)) (complaints s)\<rparr>"

text \<open>\<^verbatim>\<open>create_audit_log\<close> (core/views.py).\<close>

definition create_audit_log ::
  "env \<Rightarrow> store \<Rightarrow> nat \<Rightarrow> Complaint \<Rightarrow> User \<Rightarrow> action \<Rightarrow> string \<Rightarrow> string \<Rightarrow> string \<Rightarrow> store" where
  "create_audit_log e s pk complaint u act det old new =
     s\<lparr>audit_logs :=
         \<lparr>log_tenant = tenant complaint, log_complaint = pk, log_user = Some (uid u),
          log_action = act, details = det, old_value = old, new_value = new,
          log_created_at = now e\<rparr> # audit_logs s\<rparr>"

subsection \<open>Decorators (core/decorators.py)\<close>

definition login_required :: "'a view \<Rightarrow> 'a view" where
  "login_required view_func e s request pk =
     (case user request of
        None \<Rightarrow> (s, [], redirect_login)
      | Some u \<Rightarrow> view_func e s request pk)"

definition role_required :: "role list \<Rightarrow> 'a view \<Rightarrow> 'a view" where
  "role_required allowed_roles view_func e s request pk =
     (case user request of
        None \<Rightarrow> (s, [], HttpResponseForbidden ''Authentication required.'')
      | Some u \<Rightarrow>
          (case profile u of
             None \<Rightarrow> (s, [], HttpResponseForbidden ''User profile not configured.'')
           | Some p \<Rightarrow>
               if profile_role p \<notin> set allowed_roles
               then (s, [], HttpResponseForbidden
                              ''You do not have permission to perform this action.'')
               else view_func e s request pk))"

subsection \<open>Forms (core/forms.py)\<close>

text \<open>Django's \<^verbatim>\<open>CharField\<close> cleaning: the text is stripped of surrounding white space
  (\<^verbatim>\<open>str.strip\<close>), and text containing a null character is refused. The white space
  characters below 256 are the code points 9 to 13, 28 to 32, 133 and 160.\<close>

definition is_space :: "char \<Rightarrow> bool" where
  "is_space c =
     (let n = (of_char c :: nat)
      in (9 \<le> n \<and> n \<le> 13) \<or> (28 \<le> n \<and> n \<le> 32) \<or> n = 133 \<or> n = 160)"

definition strip :: "string \<Rightarrow> string" where
  "strip v = rev (dropWhile is_space (rev (dropWhile is_space v)))"

definition clean_char :: "string option \<Rightarrow> string" where
  "clean_char v = (case v of None \<Rightarrow> [] | Some x \<Rightarrow> strip x)"

definition has_null :: "string option \<Rightarrow> bool" where
  "has_null v = (case v of None \<Rightarrow> False | Some x \<Rightarrow> CHR 0x00 \<in> set x)"

text \<open>\<^verbatim>\<open>ComplaintStatusForm(request.POST, instance=complaint).is_valid()\<close>. The form is a
  \<^verbatim>\<open>ModelForm\<close> on the single field \<open>status\<close>, whose choices are all four of
  \<^verbatim>\<open>STATUS_CHOICES\<close>. Validating a \<^verbatim>\<open>ModelForm\<close> cleans the instance it was given
  (\<^verbatim>\<open>BaseModelForm._post_clean\<close> calls \<^verbatim>\<open>construct_instance\<close>), so on success the
  instance in the view's hands already carries the submitted status. The result is the
  instance after validation and \<^verbatim>\<open>cleaned_data['status']\<close>; \<open>None\<close> is an invalid form.\<close>

definition ComplaintStatusForm_is_valid :: "form_data \<Rightarrow> Complaint \<Rightarrow> (Complaint \<times> status) option" where
  "ComplaintStatusForm_is_valid data instance =
     (case post_status data of
        None \<Rightarrow> None
      | Some v \<Rightarrow>
          (case status_of_value v of
             None \<Rightarrow> None
           | Some st \<Rightarrow> Some (instance\<lparr>status := st\<rparr>, st)))"

text \<open>\<^verbatim>\<open>AssignmentForm(request.POST, tenant=profile.tenant).is_valid()\<close>: the required
  choice must be a user of the tenant whose role is support or manager. The result is
  \<^verbatim>\<open>cleaned_data['assigned_to']\<close>.\<close>

definition AssignmentForm_is_valid :: "store \<Rightarrow> form_data \<Rightarrow> tenant_id \<Rightarrow> User option" where
  "AssignmentForm_is_valid s data t =
     (case post_assigned_to data of
        None \<Rightarrow> None
      | Some a \<Rightarrow>
          (case get_user s a of
             None \<Rightarrow> None
           | Some x \<Rightarrow>
               (case profile x of
                  None \<Rightarrow> None
                | Some q \<Rightarrow>
                    if profile_tenant q = t \<and> profile_role q \<in> set [ROLE_SUPPORT, ROLE_MANAGER]
                    then Some x else None)))"

text \<open>\<^verbatim>\<open>ResolutionForm(request.POST).is_valid()\<close>: one required text field. The result is
  \<^verbatim>\<open>cleaned_data['resolution_notes']\<close>.\<close>

definition ResolutionForm_is_valid :: "form_data \<Rightarrow> string option" where
  "ResolutionForm_is_valid data =
     (let v = clean_char (post_resolution_notes data)
      in if v = [] \<or> has_null (post_resolution_notes data) then None else Some v)"

text \<open>A fresh \<^verbatim>\<open>Complaint()\<close> with the model's defaults. Its tenant is assigned by the view
  before the row is written.\<close>

definition new_Complaint :: Complaint where
  "new_Complaint =
     \<lparr>tenant = 0, reference_number = [], title = [], description = [], category = [],
      priority = PRIORITY_MEDIUM, status = STATUS_OPEN, submitted_by = None, logged_by = None,
      assigned_to = None, resolution_notes = [], created_at = 0, updated_at = 0,
      resolved_at = None, closed_at = None\<rparr>"

text \<open>\<^verbatim>\<open>ComplaintForm(request.POST, user=request.user)\<close>: \<open>is_valid()\<close> followed by
  \<^verbatim>\<open>save(commit=False)\<close>. Title, description and priority are required; title and
  category are bounded in length; the optional \<open>submitted_by\<close> exists only for staff and
  must be a consumer of the actor's tenant.\<close>

definition ComplaintForm_is_valid :: "store \<Rightarrow> form_data \<Rightarrow> UserProfile \<Rightarrow> Complaint option" where
  "ComplaintForm_is_valid s data p =
     (let t = clean_char (post_title data);
          d = clean_char (post_description data);
          c = clean_char (post_category data);
          text_ok = (t \<noteq> [] \<and> length t \<le> 255 \<and> d \<noteq> [] \<and> length c \<le> 100
                     \<and> \<not> has_null (post_title data) \<and> \<not> has_null (post_description data)
                     \<and> \<not> has_null (post_category data));
          consumer_ok = (\<lambda>a. case get_user s a of
                                 None \<Rightarrow> False
                               | Some x \<Rightarrow>
                                   (case profile x of
                                      None \<Rightarrow> False
                                    | Some q \<Rightarrow> profile_tenant q = profile_tenant p
                                                  \<and> profile_role q = ROLE_CONSUMER))
      in case (case post_priority data of None \<Rightarrow> None | Some v \<Rightarrow> priority_of_value v) of
           None \<Rightarrow> None
         | Some pr \<Rightarrow>
             if \<not> text_ok then None
             else if is_consumer p
             then Some (new_Complaint\<lparr>title := t, description := d, category := c, priority := pr\<rparr>)
             else (case post_submitted_by data of
                     None \<Rightarrow> Some (new_Complaint\<lparr>title := t, description := d, category := c,
                                                  priority := pr\<rparr>)
                   | Some a \<Rightarrow>
                       if consumer_ok a
                       then Some (new_Complaint\<lparr>title := t, description := d, category := c,
                                                 priority := pr, submitted_by := Some a\<rparr>)
                       else None))"

section \<open>Views (core/views.py)\<close>

text \<open>In the bodies below, a missing user or profile behind a decorator that has already
  checked for it is an attribute error, hence \<open>server_error\<close>.\<close>

text \<open>\<^verbatim>\<open>AuditLog.Meta.ordering = ['-created_at']\<close>, applied to audit rows given newest
  inserted first: later creation times come first, and rows with the same creation time keep
  their order.\<close>

definition newest_first :: "AuditLog list \<Rightarrow> AuditLog list" where
  "newest_first logs = rev (sort_key log_created_at (rev logs))"

text \<open>\<^verbatim>\<open>complaint_detail\<close>. The audit entries shown are the first twenty of the complaint's
  in the model's ordering; the support staff are the tenant's support and manager profiles in
  the order of their user names (\<^verbatim>\<open>UserProfile.Meta.ordering\<close>), compared code point by code
  point.\<close>

definition complaint_detail_body :: "nat view" where
  "complaint_detail_body e s request pk =
     (case user request of
        None \<Rightarrow> (s, [], server_error)
      | Some u \<Rightarrow>
          (case profile u of
             None \<Rightarrow> (s, [], redirect_dashboard)
           | Some p \<Rightarrow>
               (case get_object_or_404 s pk (profile_tenant p) of
                  None \<Rightarrow> (s, [], Http404)
                | Some complaint \<Rightarrow>
                    if is_consumer p \<and> submitted_by complaint \<noteq> Some (uid u)
                    then (s, [], HttpResponseForbidden
                                   ''You do not have permission to view this complaint.'')
                    else
                      (s, [], render_complaint_detail
                         \<lparr>ctx_complaint = complaint,
                          ctx_audit_logs = take 20 (newest_first
                             (filter (\<lambda>a. log_complaint a = pk) (audit_logs s))),
                          ctx_support_staff =
                            sort_key username
                              (filter (\<lambda>x. case profile x of
                                             None \<Rightarrow> False
                                           | Some q \<Rightarrow> profile_tenant q = profile_tenant p
                                               \<and> profile_role q \<in> set [ROLE_SUPPORT, ROLE_MANAGER])
                                     (users s)),
                          ctx_can_assign = (is_helpdesk p \<or> is_manager p \<or> is_admin p),
                          ctx_can_update_status = is_staff_member p,
                          ctx_can_add_resolution = (is_support p \<or> is_manager p),
                          ctx_can_close = (is_consumer p \<and> submitted_by complaint = Some (uid u))\<rparr>))))"

definition complaint_detail :: "nat view" where
  "complaint_detail = login_required complaint_detail_body"

text \<open>\<^verbatim>\<open>complaint_create\<close>. The insert fails on the unique constraint when the generated
  reference number is already in the table.\<close>

definition complaint_create_body :: "unit view" where
  "complaint_create_body e s request x =
     (case user request of
        None \<Rightarrow> (s, [], server_error)
      | Some u \<Rightarrow>
          (case profile u of
             None \<Rightarrow> (s, [], redirect_dashboard)
           | Some p \<Rightarrow>
               if http_method request = POST then
                 (case ComplaintForm_is_valid s (POST_data request) p of
                    None \<Rightarrow> (s, [], render_complaint_form)
                  | Some complaint0 \<Rightarrow>
                      let complaint1 = complaint0\<lparr>tenant := profile_tenant p\<rparr>;
                          complaint2 = (if is_consumer p
                                        then complaint1\<lparr>submitted_by := Some (uid u)\<rparr>
                                        else complaint1\<lparr>logged_by := Some (uid u)\<rparr>);
                          complaint3 = (save e s complaint2)\<lparr>created_at := now e\<rparr>;
                          pk = next_pk s
                      in if reference_number complaint3
                            \<in> set (map (\<lambda>(k, c). reference_number c) (complaints s))
                         then (s, [], server_error)
                         else
                           let s1 = s\<lparr>complaints := complaints s @ [(pk, complaint3)],
                                     next_pk := Suc pk\<rparr>;
                               s2 = create_audit_log e s1 pk complaint3 u ACTION_CREATED
                                      (''Complaint created: '' @ title complaint3) [] []
                           in (s2, [messages_success (''Complaint '' @ reference_number complaint3
                                                       @ '' created successfully.'')],
                               redirect_complaint_detail pk))
               else (s, [], render_complaint_form)))"

definition complaint_create :: "unit view" where
  "complaint_create = login_required complaint_create_body"

text \<open>\<^verbatim>\<open>complaint_update_status\<close>. \<open>old_status\<close> is read from the instance after the
  form has been validated.\<close>

definition complaint_update_status_body :: "nat view" where
  "complaint_update_status_body e s request pk =
     (case user request of
        None \<Rightarrow> (s, [], server_error)
      | Some u \<Rightarrow>
          (case profile u of
             None \<Rightarrow> (s, [], server_error)
           | Some p \<Rightarrow>
               (case get_object_or_404 s pk (profile_tenant p) of
                  None \<Rightarrow> (s, [], Http404)
                | Some complaint \<Rightarrow>
                    if http_method request = POST then
                      (case ComplaintStatusForm_is_valid (POST_data request) complaint of
                         None \<Rightarrow> (s, [], redirect_complaint_detail pk)
                       | Some (complaint1, new_status) \<Rightarrow>
                           let old_status = status complaint1
                           in if can_update_status complaint1 new_status \<or> is_admin p then
                                let complaint2 = save e s (complaint1\<lparr>status := new_status\<rparr>);
                                    s1 = update_complaint pk complaint2 s;
                                    s2 = create_audit_log e s1 pk complaint2 u ACTION_STATUS_CHANGE
                                           (''Status changed from '' @ status_value old_status
                                              @ '' to '' @ status_value new_status)
                                           (status_value old_status) (status_value new_status)
                                in (s2, [messages_success (''Status updated to ''
                                           @ get_status_display (status complaint2) @ ''.'')],
                                    redirect_complaint_detail pk)
                              else (s, [messages_error ''Invalid status transition.''],
                                    redirect_complaint_detail pk))
                    else (s, [], redirect_complaint_detail pk))))"

definition complaint_update_status :: "nat view" where
  "complaint_update_status =
     login_required (role_required [ROLE_HELPDESK, ROLE_SUPPORT, ROLE_MANAGER, ROLE_ADMIN]
       complaint_update_status_body)"

text \<open>\<^verbatim>\<open>complaint_assign\<close>. The name of an assignee whose user row is gone reads
  \<^verbatim>\<open>'Unassigned'\<close>, as the foreign key is nulled on deletion.\<close>

definition complaint_assign_body :: "nat view" where
  "complaint_assign_body e s request pk =
     (case user request of
        None \<Rightarrow> (s, [], server_error)
      | Some u \<Rightarrow>
          (case profile u of
             None \<Rightarrow> (s, [], server_error)
           | Some p \<Rightarrow>
               (case get_object_or_404 s pk (profile_tenant p) of
                  None \<Rightarrow> (s, [], Http404)
                | Some complaint \<Rightarrow>
                    if http_method request = POST then
                      (case AssignmentForm_is_valid s (POST_data request) (profile_tenant p) of
                         None \<Rightarrow> (s, [], redirect_complaint_detail pk)
                       | Some new_assigned \<Rightarrow>
                           let old_assigned = assigned_to complaint;
                               complaint1 = complaint\<lparr>assigned_to := Some (uid new_assigned)\<rparr>;
                               complaint2 = (if status complaint1 = STATUS_OPEN
                                             then complaint1\<lparr>status := STATUS_IN_PROGRESS\<rparr>
                                             else complaint1);
                               complaint3 = save e s complaint2;
                               s1 = update_complaint pk complaint3 s;
                               old_name = (case old_assigned of
                                             None \<Rightarrow> ''Unassigned''
                                           | Some a \<Rightarrow>
                                               (case get_user s a of
                                                  None \<Rightarrow> ''Unassigned''
                                                | Some x \<Rightarrow> username x));
                               new_name = username new_assigned;
                               s2 = create_audit_log e s1 pk complaint3 u ACTION_ASSIGNED
                                      (''Assigned to '' @ new_name) old_name new_name
                           in (s2, [messages_success (''Complaint assigned to '' @ new_name @ ''.'')],
                               redirect_complaint_detail pk))
                    else (s, [], redirect_complaint_detail pk))))"

definition complaint_assign :: "nat view" where
  "complaint_assign =
     login_required (role_required [ROLE_HELPDESK, ROLE_MANAGER, ROLE_ADMIN] complaint_assign_body)"

text \<open>\<^verbatim>\<open>complaint_add_resolution\<close>.\<close>

definition complaint_add_resolution_body :: "nat view" where
  "complaint_add_resolution_body e s request pk =
     (case user request of
        None \<Rightarrow> (s, [], server_error)
      | Some u \<Rightarrow>
          (case profile u of
             None \<Rightarrow> (s, [], server_error)
           | Some p \<Rightarrow>
               (case get_object_or_404 s pk (profile_tenant p) of
                  None \<Rightarrow> (s, [], Http404)
                | Some complaint \<Rightarrow>
                    if http_method request = POST then
                      (case ResolutionForm_is_valid (POST_data request) of
                         None \<Rightarrow> (s, [], redirect_complaint_detail pk)
                       | Some notes \<Rightarrow>
                           let complaint1 = save e s (complaint\<lparr>resolution_notes := notes\<rparr>);
                               s1 = update_complaint pk complaint1 s;
                               s2 = create_audit_log e s1 pk complaint1 u ACTION_RESOLUTION_ADDED
                                      ''Resolution notes updated'' [] []
                           in (s2, [messages_success ''Resolution notes added.''],
                               redirect_complaint_detail pk))
                    else (s, [], redirect_complaint_detail pk))))"

definition complaint_add_resolution :: "nat view" where
  "complaint_add_resolution =
     login_required (role_required [ROLE_SUPPORT, ROLE_MANAGER, ROLE_ADMIN]
       complaint_add_resolution_body)"

text \<open>\<^verbatim>\<open>complaint_close\<close>.\<close>

definition complaint_close_body :: "nat view" where
  "complaint_close_body e s request pk =
     (case user request of
        None \<Rightarrow> (s, [], server_error)
      | Some u \<Rightarrow>
          (case profile u of
             None \<Rightarrow> (s, [], redirect_dashboard)
           | Some p \<Rightarrow>
               (case get_object_or_404 s pk (profile_tenant p) of
                  None \<Rightarrow> (s, [], Http404)
                | Some complaint \<Rightarrow>
                    if submitted_by complaint \<noteq> Some (uid u)
                    then (s, [], HttpResponseForbidden ''Only the complaint owner can close it.'')
                    else if status complaint \<noteq> STATUS_RESOLVED
                    then (s, [messages_error ''Only resolved complaints can be closed.''],
                          redirect_complaint_detail pk)
                    else if http_method request = POST then
                      let complaint1 = save e s (complaint\<lparr>status := STATUS_CLOSED\<rparr>);
                          s1 = update_complaint pk complaint1 s;
                          s2 = create_audit_log e s1 pk complaint1 u ACTION_CLOSED
                                 ''Consumer confirmed resolution and closed the complaint'' [] []
                      in (s2, [messages_success
                                 ''Complaint closed successfully. Thank you for your feedback.''],
                          redirect_complaint_detail pk)
                    else (s, [], render_complaint_close_confirm complaint))))"

definition complaint_close :: "nat view" where
  "complaint_close = login_required complaint_close_body"

subsection \<open>The complaint operations (core/urls.py)\<close>

datatype url_name = url_complaint_detail | url_complaint_update_status | url_complaint_assign
  | url_complaint_add_resolution | url_complaint_close

fun urlpatterns :: "url_name \<Rightarrow> nat view" where
  "urlpatterns url_complaint_detail = complaint_detail"
| "urlpatterns url_complaint_update_status = complaint_update_status"
| "urlpatterns url_complaint_assign = complaint_assign"
| "urlpatterns url_complaint_add_resolution = complaint_add_resolution"
| "urlpatterns url_complaint_close = complaint_close"

section \<open>Runs of saves\<close>

text \<open>On a complaint that has a row, the views assign to \<open>status\<close>, \<open>assigned_to\<close> and
  \<open>resolution_notes\<close> and then call \<^verbatim>\<open>save\<close>. A step of a run gives the clock of the request
  and the values these three fields hold when \<^verbatim>\<open>save\<close> is called.\<close>

record save_step =
  step_env :: env
  step_status :: status
  step_assigned_to :: "user_id option"
  step_resolution_notes :: string

fun saves :: "store \<Rightarrow> save_step list \<Rightarrow> Complaint \<Rightarrow> Complaint" where
  "saves s [] c = c"
| "saves s (x # xs) c =
     saves s xs (save (step_env x) s
       (c\<lparr>status := step_status x, assigned_to := step_assigned_to x,
          resolution_notes := step_resolution_notes x\<rparr>))"

section \<open>Demo data (core/management/commands/seed_data.py)\<close>

text \<open>The tenants, users and complaints of the seeding command, with primary keys in creation
  order, the descriptions and resolution notes shortened, the clock at 0 and the random
  part of each reference number fixed.\<close>

definition seed_tenants :: "tenant_id \<rightharpoonup> Tenant" where
  "seed_tenants =
     [1 \<mapsto> \<lparr>tenant_name = ''Acme Corporation'', slug = ''acme'', is_active = True\<rparr>,
      2 \<mapsto> \<lparr>tenant_name = ''TechStart Inc'', slug = ''techstart'', is_active = True\<rparr>]"

definition seed_user :: "user_id \<Rightarrow> string \<Rightarrow> tenant_id \<Rightarrow> role \<Rightarrow> User" where
  "seed_user i n t r =
     \<lparr>uid = i, username = n, profile = Some \<lparr>profile_tenant = t, profile_role = r\<rparr>\<rparr>"

definition seed_users :: "User list" where
  "seed_users =
     [seed_user 1 ''admin'' 1 ROLE_ADMIN,
      seed_user 2 ''manager1'' 1 ROLE_MANAGER,
      seed_user 3 ''helpdesk1'' 1 ROLE_HELPDESK,
      seed_user 4 ''support1'' 1 ROLE_SUPPORT,
      seed_user 5 ''consumer1'' 1 ROLE_CONSUMER,
      seed_user 6 ''consumer2'' 1 ROLE_CONSUMER,
      seed_user 7 ''ts_admin'' 2 ROLE_ADMIN,
      seed_user 8 ''ts_consumer'' 2 ROLE_CONSUMER]"

definition seed_complaint1 :: Complaint where
  "seed_complaint1 =
     \<lparr>tenant = 1, reference_number = ''ACM-00000001'',
      title = ''Website not loading properly'',
      description = ''The main website has been showing 500 errors intermittently.'',
      category = ''Technical'', priority = PRIORITY_HIGH, status = STATUS_IN_PROGRESS,
      submitted_by = Some 5, logged_by = None, assigned_to = Some 4, resolution_notes = [],
      created_at = 0, updated_at = 0, resolved_at = None, closed_at = None\<rparr>"

definition seed_complaint2 :: Complaint where
  "seed_complaint2 =
     \<lparr>tenant = 1, reference_number = ''ACM-00000002'',
      title = ''Incorrect billing on last invoice'',
      description = ''My last invoice shows a charge of $150.'',
      category = ''Billing'', priority = PRIORITY_MEDIUM, status = STATUS_OPEN,
      submitted_by = Some 5, logged_by = None, assigned_to = None, resolution_notes = [],
      created_at = 0, updated_at = 0, resolved_at = None, closed_at = None\<rparr>"

definition seed_complaint3 :: Complaint where
  "seed_complaint3 =
     \<lparr>tenant = 1, reference_number = ''ACM-00000003'',
      title = ''Cannot access my account settings'',
      description = ''I get redirected back to the dashboard.'',
      category = ''Technical'', priority = PRIORITY_MEDIUM, status = STATUS_RESOLVED,
      submitted_by = Some 6, logged_by = None, assigned_to = Some 4,
      resolution_notes = ''The issue was caused by a session cookie conflict.'',
      created_at = 0, updated_at = 0, resolved_at = Some 0, closed_at = None\<rparr>"

definition seed_complaint4 :: Complaint where
  "seed_complaint4 =
     \<lparr>tenant = 1, reference_number = ''ACM-00000004'',
      title = ''Request for feature enhancement'',
      description = ''It would be great if you could add a dark mode option.'',
      category = ''Feature Request'', priority = PRIORITY_LOW, status = STATUS_CLOSED,
      submitted_by = Some 6, logged_by = None, assigned_to = None,
      resolution_notes = ''This has been added to our product roadmap.'',
      created_at = 0, updated_at = 0, resolved_at = None, closed_at = Some 0\<rparr>"

definition seed_complaint5 :: Complaint where
  "seed_complaint5 =
     \<lparr>tenant = 2, reference_number = ''TEC-00000005'',
      title = ''Mobile app crashes on startup'',
      description = ''The mobile app keeps crashing immediately after I open it.'',
      category = ''Technical'', priority = PRIORITY_HIGH, status = STATUS_OPEN,
      submitted_by = Some 8, logged_by = None, assigned_to = None, resolution_notes = [],
      created_at = 0, updated_at = 0, resolved_at = None, closed_at = None\<rparr>"

definition seed_audit_log :: "nat \<Rightarrow> Complaint \<Rightarrow> AuditLog" where
  "seed_audit_log pk c =
     \<lparr>log_tenant = tenant c, log_complaint = pk, log_user = submitted_by c,
      log_action = ACTION_CREATED, details = ''Complaint created: '' @ title c,
      old_value = [], new_value = [], log_created_at = 0\<rparr>"

definition seed_data :: store where
  "seed_data =
     \<lparr>tenants = seed_tenants, users = seed_users,
      complaints = [(1, seed_complaint1), (2, seed_complaint2), (3, seed_complaint3),
                    (4, seed_complaint4), (5, seed_complaint5)],
      audit_logs = [seed_audit_log 5 seed_complaint5, seed_audit_log 4 seed_complaint4,
                    seed_audit_log 3 seed_complaint3, seed_audit_log 2 seed_complaint2,
                    seed_audit_log 1 seed_complaint1],
      next_pk = 6\<rparr>"

text \<open>Requests on the demo data: a form submission with no field filled in, and a request
  made by a demo user.\<close>

definition empty_form :: form_data where
  "empty_form =
     \<lparr>post_status = None, post_assigned_to = None, post_resolution_notes = None,
      post_title = None, post_description = None, post_category = None,
      post_priority = None, post_submitted_by = None\<rparr>"

definition request_of :: "user_id \<Rightarrow> http_method \<Rightarrow> form_data \<Rightarrow> request" where
  "request_of i m d = \<lparr>user = get_user seed_data i, http_method = m, POST_data = d\<rparr>"

definition at_time :: "time \<Rightarrow> env" where
  "at_time t = \<lparr>now = t, uuid4 = ''3f2b8c1e-5d4a-4b6f-9c7e-1a2b3c4d5e6f''\<rparr>"

text \<open>An operation succeeded when it reports a success message.\<close>

definition succeeded :: "result \<Rightarrow> bool" where
  "succeeded r = (\<exists>m \<in> set (fst (snd r)). case m of messages_success x \<Rightarrow> True | messages_error x \<Rightarrow> False)"

text \<open>The kind of audit entry that belongs to each operation; viewing writes none.\<close>

fun audit_action :: "url_name \<Rightarrow> action option" where
  "audit_action url_complaint_detail = None"
| "audit_action url_complaint_update_status = Some ACTION_STATUS_CHANGE"
| "audit_action url_complaint_assign = Some ACTION_ASSIGNED"
| "audit_action url_complaint_add_resolution = Some ACTION_RESOLUTION_ADDED"
| "audit_action url_complaint_close = Some ACTION_CLOSED"

section \<open>Properties of saving\<close>

lemma save_resolved_at:
  "resolved_at (save e s c) =
     (case resolved_at c of
        Some t \<Rightarrow> Some t
      | None \<Rightarrow> if status c = STATUS_RESOLVED then Some (now e) else None)"
  by (simp add: save_def Let_def split: option.splits)

lemma save_closed_at:
  "closed_at (save e s c) =
     (case closed_at c of
        Some t \<Rightarrow> Some t
      | None \<Rightarrow> if status c = STATUS_CLOSED then Some (now e) else None)"
  by (simp add: save_def Let_def split: option.splits)

lemma save_status: "status (save e s c) = status c"
  by (simp add: save_def Let_def)

lemma save_assigned_to: "assigned_to (save e s c) = assigned_to c"
  by (simp add: save_def Let_def)

lemma save_resolution_notes: "resolution_notes (save e s c) = resolution_notes c"
  by (simp add: save_def Let_def)

lemma map_of_update_complaint:
  "map_of (complaints s) pk = Some c \<Longrightarrow>
   map_of (complaints (update_complaint pk c' s)) pk = Some c'"
proof -
  have "map_of rows pk = Some c \<Longrightarrow>
        map_of (map (\<lambda>(k, v). if k = pk then (k, c') else (k, v)) rows) pk = Some c'" for rows
    by (induction rows) (auto split: if_splits)
  then show "map_of (complaints s) pk = Some c \<Longrightarrow> ?thesis"
    by (simp add: update_complaint_def)
qed

text \<open>C7. Over any run of saves, \<open>resolved_at\<close> keeps the value it has; when it is unset, it
  receives the clock of the first save of the run whose status is Resolved, and stays unset if
  there is none. Later saves, including a return to In Progress and a second entry into
  Resolved, do not overwrite it.\<close>

theorem resolved_at_assigned_once:
  "resolved_at (saves s xs c) =
     (case resolved_at c of
        Some t \<Rightarrow> Some t
      | None \<Rightarrow>
          (case find (\<lambda>x. step_status x = STATUS_RESOLVED) xs of
             None \<Rightarrow> None
           | Some x \<Rightarrow> Some (now (step_env x))))"
proof (induction xs arbitrary: c)
  case Nil
  then show ?case by (simp split: option.splits)
next
  case (Cons x xs)
  show ?case
  proof (cases "resolved_at c")
    case None
    then show ?thesis by (simp add: Cons.IH save_resolved_at)
  next
    case (Some t)
    then show ?thesis by (simp add: Cons.IH save_resolved_at)
  qed
qed

section \<open>Evaluating the demo data\<close>

lemma seed_get_user:
  "get_user seed_data 1 = Some (seed_user 1 ''admin'' 1 ROLE_ADMIN)"
  "get_user seed_data 2 = Some (seed_user 2 ''manager1'' 1 ROLE_MANAGER)"
  "get_user seed_data 3 = Some (seed_user 3 ''helpdesk1'' 1 ROLE_HELPDESK)"
  "get_user seed_data 4 = Some (seed_user 4 ''support1'' 1 ROLE_SUPPORT)"
  "get_user seed_data 5 = Some (seed_user 5 ''consumer1'' 1 ROLE_CONSUMER)"
  "get_user seed_data 6 = Some (seed_user 6 ''consumer2'' 1 ROLE_CONSUMER)"
  "get_user seed_data 8 = Some (seed_user 8 ''ts_consumer'' 2 ROLE_CONSUMER)"
  "get_user seed_data (Suc 0) = Some (seed_user 1 ''admin'' 1 ROLE_ADMIN)"
  by (simp_all add: get_user_def seed_data_def seed_users_def seed_user_def)

lemma seed_complaints:
  "map_of (complaints seed_data) 1 = Some seed_complaint1"
  "map_of (complaints seed_data) 2 = Some seed_complaint2"
  "map_of (complaints seed_data) 3 = Some seed_complaint3"
  "map_of (complaints seed_data) 4 = Some seed_complaint4"
  "map_of (complaints seed_data) 5 = Some seed_complaint5"
  "map_of (complaints seed_data) 9 = None"
  "map_of (complaints seed_data) (Suc 0) = Some seed_complaint1"
  by (simp_all add: seed_data_def)

lemma request_of_simps:
  "user (request_of i m d) = get_user seed_data i"
  "http_method (request_of i m d) = m"
  "POST_data (request_of i m d) = d"
  by (simp_all add: request_of_def)

lemma seed_user_simps:
  "uid (seed_user i n t r) = i"
  "username (seed_user i n t r) = n"
  "profile (seed_user i n t r) = Some \<lparr>profile_tenant = t, profile_role = r\<rparr>"
  by (simp_all add: seed_user_def)

section \<open>Properties of the views\<close>

lemmas view_defs =
  complaint_detail_def complaint_detail_body_def
  complaint_update_status_def complaint_update_status_body_def
  complaint_assign_def complaint_assign_body_def
  complaint_add_resolution_def complaint_add_resolution_body_def
  complaint_close_def complaint_close_body_def
  login_required_def role_required_def

text \<open>C1. An actor with a profile asks for any of the five complaint operations on a complaint
  of another tenant. Whatever the actor's role, the store is left as it was, no message is
  issued, and the response is a denial (not found, or the role gate's refusal); the same
  request against any store in which the complaint does not exist gets the very same
  response.\<close>

theorem cross_tenant_denied:
  assumes "user request = Some u" and "profile u = Some p"
    and "map_of (complaints s) pk = Some c" and "tenant c \<noteq> profile_tenant p"
    and "map_of (complaints s0) pk = None"
  shows "\<exists>resp. urlpatterns op e s request pk = (s, [], resp)
           \<and> urlpatterns op e s0 request pk = (s0, [], resp)
           \<and> (resp = Http404 \<or> resp = HttpResponseForbidden
                 ''You do not have permission to perform this action.'')"
proof -
  have nf: "get_object_or_404 s pk (profile_tenant p) = None"
    using assms by (simp add: get_object_or_404_def)
  have nf0: "get_object_or_404 s0 pk (profile_tenant p) = None"
    using assms by (simp add: get_object_or_404_def)
  show ?thesis
    using assms(1,2) nf nf0 by (cases op) (simp_all add: view_defs)
qed

theorem cross_tenant_denied_witness:
  "user (request_of 8 GET empty_form) = Some (seed_user 8 ''ts_consumer'' 2 ROLE_CONSUMER)
   \<and> tenant seed_complaint1 \<noteq> 2
   \<and> (\<exists>resp. urlpatterns url_complaint_detail (at_time 1) seed_data
                 (request_of 8 GET empty_form) 1 = (seed_data, [], resp)
           \<and> urlpatterns url_complaint_detail (at_time 1) (seed_data\<lparr>complaints := []\<rparr>)
                 (request_of 8 GET empty_form) 1 = (seed_data\<lparr>complaints := []\<rparr>, [], resp)
           \<and> (resp = Http404 \<or> resp = HttpResponseForbidden
                 ''You do not have permission to perform this action.''))"
proof -
  have h1: "user (request_of 8 GET empty_form) = Some (seed_user 8 ''ts_consumer'' 2 ROLE_CONSUMER)"
    by (simp add: request_of_simps seed_get_user)
  have h2: "profile (seed_user 8 ''ts_consumer'' 2 ROLE_CONSUMER)
              = Some \<lparr>profile_tenant = 2, profile_role = ROLE_CONSUMER\<rparr>"
    by (simp add: seed_user_simps)
  have h3: "map_of (complaints seed_data) 1 = Some seed_complaint1"
    by (fact seed_complaints)
  have h4: "tenant seed_complaint1 \<noteq> profile_tenant \<lparr>profile_tenant = 2, profile_role = ROLE_CONSUMER\<rparr>"
    by (simp add: seed_complaint1_def)
  have h5: "map_of (complaints (seed_data\<lparr>complaints := []\<rparr>)) 1 = None"
    by simp
  show ?thesis
    using h1 h4 cross_tenant_denied [OF h1 h2 h3 h4 h5, of url_complaint_detail "at_time 1"]
    by simp
qed

text \<open>C10 as stated fails. The demo consumer \<open>consumer1\<close> asks to view complaint 3 of their
  own tenant, submitted by \<open>consumer2\<close>: the response is the 403 of the ownership check, while
  the same request for the missing complaint 9 gets the 404. The two responses differ.\<close>

theorem consumer_view_of_foreign_complaint_counterexample:
  "complaint_detail (at_time 1) seed_data (request_of 5 GET empty_form) 3
     = (seed_data, [], HttpResponseForbidden ''You do not have permission to view this complaint.'')
   \<and> complaint_detail (at_time 1) seed_data (request_of 5 GET empty_form) 9
     = (seed_data, [], Http404)
   \<and> snd (snd (complaint_detail (at_time 1) seed_data (request_of 5 GET empty_form) 3))
     \<noteq> snd (snd (complaint_detail (at_time 1) seed_data (request_of 5 GET empty_form) 9))"
  by (simp add: view_defs request_of_simps seed_get_user seed_user_simps get_object_or_404_def
        seed_complaints seed_complaint3_def is_consumer_def)

text \<open>C10, amended. A consumer who asks to view a complaint of their own tenant that another
  user submitted is denied: the response is the 403 of the ownership check, with a fixed text
  and no complaint data, no message is issued and the store is left as it was. The response
  for a complaint that does not exist is the 404, so the two are distinguishable.\<close>

theorem consumer_view_of_foreign_complaint:
  assumes "user request = Some u" and "profile u = Some p" and "is_consumer p"
    and "map_of (complaints s) pk = Some c" and "tenant c = profile_tenant p"
    and "submitted_by c \<noteq> Some (uid u)"
    and "map_of (complaints s0) pk = None"
  shows "complaint_detail e s request pk
           = (s, [], HttpResponseForbidden ''You do not have permission to view this complaint.'')
         \<and> complaint_detail e s0 request pk = (s0, [], Http404)"
  using assms by (simp add: view_defs get_object_or_404_def)

theorem consumer_view_of_foreign_complaint_witness:
  "user (request_of 5 GET empty_form) = Some (seed_user 5 ''consumer1'' 1 ROLE_CONSUMER)
   \<and> is_consumer \<lparr>profile_tenant = 1, profile_role = ROLE_CONSUMER\<rparr>
   \<and> tenant seed_complaint3 = 1
   \<and> submitted_by seed_complaint3 \<noteq> Some 5
   \<and> complaint_detail (at_time 1) seed_data (request_of 5 GET empty_form) 3
       = (seed_data, [], HttpResponseForbidden ''You do not have permission to view this complaint.'')
   \<and> complaint_detail (at_time 1) (seed_data\<lparr>complaints := []\<rparr>) (request_of 5 GET empty_form) 3
       = (seed_data\<lparr>complaints := []\<rparr>, [], Http404)"
proof -
  have h1: "user (request_of 5 GET empty_form) = Some (seed_user 5 ''consumer1'' 1 ROLE_CONSUMER)"
    by (simp add: request_of_simps seed_get_user)
  have h2: "profile (seed_user 5 ''consumer1'' 1 ROLE_CONSUMER)
              = Some \<lparr>profile_tenant = 1, profile_role = ROLE_CONSUMER\<rparr>"
    by (simp add: seed_user_simps)
  have h3: "is_consumer \<lparr>profile_tenant = 1, profile_role = ROLE_CONSUMER\<rparr>"
    by (simp add: is_consumer_def)
  have h4: "map_of (complaints seed_data) 3 = Some seed_complaint3"
    by (fact seed_complaints)
  have h5: "tenant seed_complaint3 = profile_tenant \<lparr>profile_tenant = 1, profile_role = ROLE_CONSUMER\<rparr>"
    by (simp add: seed_complaint3_def)
  have h6: "submitted_by seed_complaint3 \<noteq> Some (uid (seed_user 5 ''consumer1'' 1 ROLE_CONSUMER))"
    by (simp add: seed_complaint3_def seed_user_simps)
  have h7: "map_of (complaints (seed_data\<lparr>complaints := []\<rparr>)) 3 = None"
    by simp
  show ?thesis
    using h1 h3 h5 h6
      consumer_view_of_foreign_complaint [OF h1 h2 h3 h4 h5 h6 h7, of "at_time 1"]
    by (simp add: seed_user_simps)
qed

text \<open>The body of \<^verbatim>\<open>complaint_add_resolution\<close> never answers with a 403 of its own.\<close>

lemma add_resolution_body_not_forbidden:
  "snd (snd (complaint_add_resolution_body e s request pk)) \<noteq> HttpResponseForbidden m"
  by (simp add: complaint_add_resolution_body_def Let_def split: option.splits)

text \<open>C9 as stated fails. The demo administrator posts resolution notes for complaint 2: the
  operation reports success and the notes are stored.\<close>

theorem add_resolution_admin_counterexample:
  "Option.bind (user (request_of 1 POST (empty_form\<lparr>post_resolution_notes := Some ''Fixed''\<rparr>))) profile
     = Some \<lparr>profile_tenant = 1, profile_role = ROLE_ADMIN\<rparr>
   \<and> snd (complaint_add_resolution (at_time 1) seed_data
            (request_of 1 POST (empty_form\<lparr>post_resolution_notes := Some ''Fixed''\<rparr>)) 2)
       = ([messages_success ''Resolution notes added.''], redirect_complaint_detail 2)
   \<and> map_option resolution_notes
        (map_of (complaints (fst (complaint_add_resolution (at_time 1) seed_data
            (request_of 1 POST (empty_form\<lparr>post_resolution_notes := Some ''Fixed''\<rparr>)) 2))) 2)
       = Some ''Fixed''"
  by (simp add: view_defs request_of_simps seed_get_user seed_user_simps get_object_or_404_def
        seed_complaints ResolutionForm_is_valid_def clean_char_def strip_def is_space_def
        has_null_def empty_form_def Let_def create_audit_log_def map_of_update_complaint
        save_resolution_notes seed_complaint2_def)

text \<open>C9, amended. The role gate of the add-resolution operation refuses an actor exactly when
  the actor's role is none of Support, Manager and Administrator; an actor with one of these
  three roles who posts valid notes for a complaint of their tenant succeeds, and the notes
  are saved on the complaint.\<close>

theorem add_resolution_roles:
  assumes "user request = Some u" and "profile u = Some p"
  shows "((complaint_add_resolution e s request pk
            = (s, [], HttpResponseForbidden ''You do not have permission to perform this action.''))
          = (profile_role p \<notin> {ROLE_SUPPORT, ROLE_MANAGER, ROLE_ADMIN}))
       \<and> (profile_role p \<in> {ROLE_SUPPORT, ROLE_MANAGER, ROLE_ADMIN}
          \<and> http_method request = POST
          \<and> get_object_or_404 s pk (profile_tenant p) = Some c
          \<and> ResolutionForm_is_valid (POST_data request) = Some notes
          \<longrightarrow> succeeded (complaint_add_resolution e s request pk)
              \<and> map_of (complaints (fst (complaint_add_resolution e s request pk))) pk
                  = Some (save e s (c\<lparr>resolution_notes := notes\<rparr>)))"
proof -
  have gate: "(complaint_add_resolution e s request pk
            = (s, [], HttpResponseForbidden ''You do not have permission to perform this action.''))
         = (profile_role p \<notin> {ROLE_SUPPORT, ROLE_MANAGER, ROLE_ADMIN})"
  proof (cases "profile_role p \<in> {ROLE_SUPPORT, ROLE_MANAGER, ROLE_ADMIN}")
    case True
    then have "complaint_add_resolution e s request pk = complaint_add_resolution_body e s request pk"
      using assms by (auto simp add: complaint_add_resolution_def login_required_def role_required_def)
    then show ?thesis
      using True add_resolution_body_not_forbidden [of e s request pk]
      by (metis snd_conv)
  next
    case False
    then show ?thesis
      using assms by (simp add: complaint_add_resolution_def login_required_def role_required_def)
  qed
  have run: "succeeded (complaint_add_resolution e s request pk)
             \<and> map_of (complaints (fst (complaint_add_resolution e s request pk))) pk
                 = Some (save e s (c\<lparr>resolution_notes := notes\<rparr>))"
    if r: "profile_role p \<in> {ROLE_SUPPORT, ROLE_MANAGER, ROLE_ADMIN}"
      and m: "http_method request = POST"
      and g: "get_object_or_404 s pk (profile_tenant p) = Some c"
      and f: "ResolutionForm_is_valid (POST_data request) = Some notes"
  proof -
    from g have row: "map_of (complaints s) pk = Some c"
      by (simp add: get_object_or_404_def split: option.splits if_splits)
    show ?thesis
      using assms r m g f map_of_update_complaint [OF row]
      by (auto simp add: view_defs succeeded_def Let_def create_audit_log_def)
  qed
  show ?thesis using gate run by blast
qed

theorem add_resolution_roles_witness:
  "profile_role \<lparr>profile_tenant = 1, profile_role = ROLE_ADMIN\<rparr>
     \<in> {ROLE_SUPPORT, ROLE_MANAGER, ROLE_ADMIN}
   \<and> succeeded (complaint_add_resolution (at_time 1) seed_data
        (request_of 1 POST (empty_form\<lparr>post_resolution_notes := Some ''Fixed''\<rparr>)) 2)
   \<and> map_of (complaints (fst (complaint_add_resolution (at_time 1) seed_data
        (request_of 1 POST (empty_form\<lparr>post_resolution_notes := Some ''Fixed''\<rparr>)) 2))) 2
       = Some (save (at_time 1) seed_data (seed_complaint2\<lparr>resolution_notes := ''Fixed''\<rparr>))"
proof -
  let ?req = "request_of 1 POST (empty_form\<lparr>post_resolution_notes := Some ''Fixed''\<rparr>)"
  let ?p = "\<lparr>profile_tenant = 1, profile_role = ROLE_ADMIN\<rparr>"
  have h1: "user ?req = Some (seed_user 1 ''admin'' 1 ROLE_ADMIN)"
    by (simp add: request_of_simps seed_get_user)
  have h2: "profile (seed_user 1 ''admin'' 1 ROLE_ADMIN) = Some ?p"
    by (simp add: seed_user_simps)
  have h3: "profile_role ?p \<in> {ROLE_SUPPORT, ROLE_MANAGER, ROLE_ADMIN}"
    by simp
  have h4: "http_method ?req = POST"
    by (simp add: request_of_simps)
  have h5: "get_object_or_404 seed_data 2 (profile_tenant ?p) = Some seed_complaint2"
    by (simp add: get_object_or_404_def seed_complaints seed_complaint2_def)
  have h6: "ResolutionForm_is_valid (POST_data ?req) = Some ''Fixed''"
    by (simp add: request_of_simps empty_form_def ResolutionForm_is_valid_def clean_char_def
          strip_def is_space_def has_null_def)
  show ?thesis
    using h3 h4 h5 h6
      add_resolution_roles [OF h1 h2, of "at_time 1" seed_data 2 seed_complaint2 "''Fixed''"]
    by blast
qed

subsection \<open>Closing\<close>

lemma close_eval:
  assumes "user request = Some u" and "profile u = Some p"
    and "get_object_or_404 s pk (profile_tenant p) = Some c"
  shows "complaint_close e s request pk =
     (if submitted_by c \<noteq> Some (uid u)
      then (s, [], HttpResponseForbidden ''Only the complaint owner can close it.'')
      else if status c \<noteq> STATUS_RESOLVED
      then (s, [messages_error ''Only resolved complaints can be closed.''],
            redirect_complaint_detail pk)
      else if http_method request = POST
      then (create_audit_log e (update_complaint pk (save e s (c\<lparr>status := STATUS_CLOSED\<rparr>)) s)
              pk (save e s (c\<lparr>status := STATUS_CLOSED\<rparr>)) u ACTION_CLOSED
              ''Consumer confirmed resolution and closed the complaint'' [] [],
            [messages_success ''Complaint closed successfully. Thank you for your feedback.''],
            redirect_complaint_detail pk)
      else (s, [], render_complaint_close_confirm c))"
  using assms by (simp add: complaint_close_def complaint_close_body_def login_required_def Let_def)

lemma complaints_create_audit_log:
  "complaints (create_audit_log e s pk c u act det old new) = complaints s"
  by (simp add: create_audit_log_def)

lemma audit_logs_create_audit_log:
  "audit_logs (create_audit_log e s pk c u act det old new) =
     \<lparr>log_tenant = tenant c, log_complaint = pk, log_user = Some (uid u),
      log_action = act, details = det, old_value = old, new_value = new,
      log_created_at = now e\<rparr> # audit_logs s"
  by (simp add: create_audit_log_def)

lemma audit_logs_update_complaint:
  "audit_logs (update_complaint pk c s) = audit_logs s"
  by (simp add: update_complaint_def)

lemma get_object_row:
  "get_object_or_404 s pk t = Some c \<Longrightarrow> map_of (complaints s) pk = Some c"
  by (simp add: get_object_or_404_def split: option.splits if_splits)

text \<open>C6. An actor with a profile posts the close operation for a complaint of their tenant.
  It succeeds exactly when the actor is the user who submitted the complaint and the status
  is Resolved. On success the stored complaint is the saved one: its status is Closed and
  \<open>closed_at\<close> is the clock if it was unset, and kept otherwise. On failure the store is
  left as it was.\<close>

theorem close_complaint:
  assumes "user request = Some u" and "profile u = Some p"
    and "http_method request = POST"
    and "get_object_or_404 s pk (profile_tenant p) = Some c"
  shows "(succeeded (complaint_close e s request pk)
            = (submitted_by c = Some (uid u) \<and> status c = STATUS_RESOLVED))
       \<and> (succeeded (complaint_close e s request pk) \<longrightarrow>
            (\<exists>c'. map_of (complaints (fst (complaint_close e s request pk))) pk = Some c'
                \<and> c' = save e s (c\<lparr>status := STATUS_CLOSED\<rparr>)
                \<and> status c' = STATUS_CLOSED
                \<and> closed_at c' = (case closed_at c of None \<Rightarrow> Some (now e) | Some t \<Rightarrow> Some t)))
       \<and> (\<not> succeeded (complaint_close e s request pk) \<longrightarrow>
            fst (complaint_close e s request pk) = s)"
proof (cases "submitted_by c = Some (uid u) \<and> status c = STATUS_RESOLVED")
  case True
  have row: "map_of (complaints s) pk = Some c"
    using assms(4) by (rule get_object_row)
  show ?thesis
    using True assms(3) map_of_update_complaint [OF row]
    by (simp add: close_eval [OF assms(1,2,4)] succeeded_def complaints_create_audit_log
          save_status save_closed_at)
next
  case False
  then show ?thesis
    by (auto simp add: close_eval [OF assms(1,2,4)] succeeded_def)
qed

theorem close_complaint_witness:
  "http_method (request_of 6 POST empty_form) = POST
   \<and> get_object_or_404 seed_data 3 1 = Some seed_complaint3
   \<and> submitted_by seed_complaint3 = Some 6 \<and> status seed_complaint3 = STATUS_RESOLVED
   \<and> succeeded (complaint_close (at_time 7) seed_data (request_of 6 POST empty_form) 3)
   \<and> map_of (complaints (fst (complaint_close (at_time 7) seed_data
                                 (request_of 6 POST empty_form) 3))) 3
       = Some (save (at_time 7) seed_data (seed_complaint3\<lparr>status := STATUS_CLOSED\<rparr>))
   \<and> closed_at (save (at_time 7) seed_data (seed_complaint3\<lparr>status := STATUS_CLOSED\<rparr>)) = Some 7"
proof -
  let ?req = "request_of 6 POST empty_form"
  let ?p = "\<lparr>profile_tenant = 1, profile_role = ROLE_CONSUMER\<rparr>"
  have h1: "user ?req = Some (seed_user 6 ''consumer2'' 1 ROLE_CONSUMER)"
    by (simp add: request_of_simps seed_get_user)
  have h2: "profile (seed_user 6 ''consumer2'' 1 ROLE_CONSUMER) = Some ?p"
    by (simp add: seed_user_simps)
  have h3: "http_method ?req = POST"
    by (simp add: request_of_simps)
  have h4: "get_object_or_404 seed_data 3 (profile_tenant ?p) = Some seed_complaint3"
    by (simp add: get_object_or_404_def seed_complaints seed_complaint3_def)
  have h5: "submitted_by seed_complaint3 = Some (uid (seed_user 6 ''consumer2'' 1 ROLE_CONSUMER))"
    by (simp add: seed_complaint3_def seed_user_simps)
  have h6: "status seed_complaint3 = STATUS_RESOLVED"
    by (simp add: seed_complaint3_def)
  have h7: "closed_at seed_complaint3 = None"
    by (simp add: seed_complaint3_def)
  show ?thesis
    using h3 h4 h5 h6 h7 close_complaint [OF h1 h2 h3 h4, of "at_time 7"]
    by (simp add: seed_user_simps at_time_def)
qed

subsection \<open>What each operation computes once the actor is known\<close>

lemma no_self_transition: "st \<notin> set (valid_transitions st)"
  by (cases st) simp_all

lemma login_required_eval:
  "login_required v e s request pk =
     (case user request of None \<Rightarrow> (s, [], redirect_login) | Some u \<Rightarrow> v e s request pk)"
  by (simp add: login_required_def)

lemma role_required_eval:
  assumes "user request = Some u" and "profile u = Some p"
  shows "role_required rs v e s request pk =
     (if profile_role p \<in> set rs then v e s request pk
      else (s, [], HttpResponseForbidden ''You do not have permission to perform this action.''))"
  using assms by (simp add: role_required_def)

lemma succeeded_simps:
  "succeeded (s, [], resp) = False"
  "succeeded (s, [messages_error x], resp) = False"
  "succeeded (s, [messages_success x], resp) = True"
  by (simp_all add: succeeded_def)

lemma detail_unchanged:
  "fst (complaint_detail e s request pk) = s \<and> \<not> succeeded (complaint_detail e s request pk)"
  by (simp add: complaint_detail_def complaint_detail_body_def login_required_def succeeded_simps
        split: option.splits)

lemma update_status_body_eval:
  assumes "user request = Some u" and "profile u = Some p"
  shows "complaint_update_status_body e s request pk =
     (case get_object_or_404 s pk (profile_tenant p) of
        None \<Rightarrow> (s, [], Http404)
      | Some c \<Rightarrow>
          if http_method request = POST then
            (case Option.bind (post_status (POST_data request)) status_of_value of
               None \<Rightarrow> (s, [], redirect_complaint_detail pk)
             | Some st \<Rightarrow>
                 if is_admin p then
                   (create_audit_log e (update_complaint pk (save e s (c\<lparr>status := st\<rparr>)) s) pk
                      (save e s (c\<lparr>status := st\<rparr>)) u ACTION_STATUS_CHANGE
                      (''Status changed from '' @ status_value st @ '' to '' @ status_value st)
                      (status_value st) (status_value st),
                    [messages_success (''Status updated to '' @ get_status_display st @ ''.'')],
                    redirect_complaint_detail pk)
                 else (s, [messages_error ''Invalid status transition.''],
                       redirect_complaint_detail pk))
          else (s, [], redirect_complaint_detail pk))"
proof (cases "get_object_or_404 s pk (profile_tenant p)")
  case None
  then show ?thesis using assms by (simp add: complaint_update_status_body_def)
next
  case (Some c)
  show ?thesis
  proof (cases "post_status (POST_data request)")
    case None
    then show ?thesis
      using assms Some by (simp add: complaint_update_status_body_def ComplaintStatusForm_is_valid_def)
  next
    case v: (Some v)
    show ?thesis
    proof (cases "status_of_value v")
      case None
      then show ?thesis
        using assms Some v
        by (simp add: complaint_update_status_body_def ComplaintStatusForm_is_valid_def)
    next
      case st: (Some st)
      then show ?thesis
        using assms Some v
        by (simp add: complaint_update_status_body_def ComplaintStatusForm_is_valid_def Let_def
              can_update_status_def no_self_transition save_status)
    qed
  qed
qed


lemma update_status_eval:
  assumes "user request = Some u" and "profile u = Some p"
  shows "complaint_update_status e s request pk =
     (if profile_role p \<in> {ROLE_HELPDESK, ROLE_SUPPORT, ROLE_MANAGER, ROLE_ADMIN}
      then complaint_update_status_body e s request pk
      else (s, [], HttpResponseForbidden ''You do not have permission to perform this action.''))"
  using assms
  by (simp add: complaint_update_status_def login_required_eval role_required_eval [OF assms])

lemma assign_body_eval:
  assumes "user request = Some u" and "profile u = Some p"
  shows "complaint_assign_body e s request pk =
     (case get_object_or_404 s pk (profile_tenant p) of
        None \<Rightarrow> (s, [], Http404)
      | Some c \<Rightarrow>
          if http_method request = POST then
            (case AssignmentForm_is_valid s (POST_data request) (profile_tenant p) of
               None \<Rightarrow> (s, [], redirect_complaint_detail pk)
             | Some a \<Rightarrow>
                 (create_audit_log e
                    (update_complaint pk
                       (save e s (c\<lparr>assigned_to := Some (uid a),
                                    status := (if status c = STATUS_OPEN then STATUS_IN_PROGRESS
                                               else status c)\<rparr>)) s)
                    pk
                    (save e s (c\<lparr>assigned_to := Some (uid a),
                                 status := (if status c = STATUS_OPEN then STATUS_IN_PROGRESS
                                            else status c)\<rparr>))
                    u ACTION_ASSIGNED (''Assigned to '' @ username a)
                    (case assigned_to c of
                       None \<Rightarrow> ''Unassigned''
                     | Some x \<Rightarrow>
                         (case get_user s x of None \<Rightarrow> ''Unassigned'' | Some y \<Rightarrow> username y))
                    (username a),
                  [messages_success (''Complaint assigned to '' @ username a @ ''.'')],
                  redirect_complaint_detail pk))
          else (s, [], redirect_complaint_detail pk))"
proof (cases "get_object_or_404 s pk (profile_tenant p)")
  case None
  then show ?thesis using assms by (simp add: complaint_assign_body_def)
next
  case (Some c)
  show ?thesis
  proof (cases "AssignmentForm_is_valid s (POST_data request) (profile_tenant p)")
    case None
    then show ?thesis using assms Some by (simp add: complaint_assign_body_def)
  next
    case a: (Some a)
    show ?thesis
    proof (cases "status c = STATUS_OPEN")
      case True
      then show ?thesis using assms Some a by (simp add: complaint_assign_body_def Let_def)
    next
      case False
      then show ?thesis using assms Some a by (simp add: complaint_assign_body_def Let_def)
    qed
  qed
qed

lemma assign_eval:
  assumes "user request = Some u" and "profile u = Some p"
  shows "complaint_assign e s request pk =
     (if profile_role p \<in> {ROLE_HELPDESK, ROLE_MANAGER, ROLE_ADMIN}
      then complaint_assign_body e s request pk
      else (s, [], HttpResponseForbidden ''You do not have permission to perform this action.''))"
  using assms
  by (simp add: complaint_assign_def login_required_eval role_required_eval [OF assms])

lemma add_resolution_body_eval:
  assumes "user request = Some u" and "profile u = Some p"
  shows "complaint_add_resolution_body e s request pk =
     (case get_object_or_404 s pk (profile_tenant p) of
        None \<Rightarrow> (s, [], Http404)
      | Some c \<Rightarrow>
          if http_method request = POST then
            (case ResolutionForm_is_valid (POST_data request) of
               None \<Rightarrow> (s, [], redirect_complaint_detail pk)
             | Some notes \<Rightarrow>
                 (create_audit_log e
                    (update_complaint pk (save e s (c\<lparr>resolution_notes := notes\<rparr>)) s)
                    pk (save e s (c\<lparr>resolution_notes := notes\<rparr>)) u ACTION_RESOLUTION_ADDED
                    ''Resolution notes updated'' [] [],
                  [messages_success ''Resolution notes added.''],
                  redirect_complaint_detail pk))
          else (s, [], redirect_complaint_detail pk))"
proof (cases "get_object_or_404 s pk (profile_tenant p)")
  case None
  then show ?thesis using assms by (simp add: complaint_add_resolution_body_def)
next
  case (Some c)
  show ?thesis
  proof (cases "ResolutionForm_is_valid (POST_data request)")
    case None
    then show ?thesis using assms Some by (simp add: complaint_add_resolution_body_def)
  next
    case n: (Some ns)
    then show ?thesis using assms Some by (simp add: complaint_add_resolution_body_def Let_def)
  qed
qed

lemma add_resolution_eval:
  assumes "user request = Some u" and "profile u = Some p"
  shows "complaint_add_resolution e s request pk =
     (if profile_role p \<in> {ROLE_SUPPORT, ROLE_MANAGER, ROLE_ADMIN}
      then complaint_add_resolution_body e s request pk
      else (s, [], HttpResponseForbidden ''You do not have permission to perform this action.''))"
  using assms
  by (simp add: complaint_add_resolution_def login_required_eval role_required_eval [OF assms])

lemma close_eval_404:
  assumes "user request = Some u" and "profile u = Some p"
    and "get_object_or_404 s pk (profile_tenant p) = None"
  shows "complaint_close e s request pk = (s, [], Http404)"
  using assms by (simp add: complaint_close_def complaint_close_body_def login_required_def)

text \<open>Without a user or without a profile, no operation writes to the store.\<close>

lemma no_user_unchanged:
  assumes "user request = None"
  shows "fst (urlpatterns op e s request pk) = s \<and> \<not> succeeded (urlpatterns op e s request pk)"
  using assms
  by (cases op) (simp_all add: complaint_detail_def complaint_update_status_def
        complaint_assign_def complaint_add_resolution_def complaint_close_def
        login_required_def succeeded_simps)

lemma no_profile_unchanged:
  assumes "user request = Some u" and "profile u = None"
  shows "fst (urlpatterns op e s request pk) = s \<and> \<not> succeeded (urlpatterns op e s request pk)"
  using assms
  by (cases op) (simp_all add: view_defs succeeded_simps)

subsection \<open>Assignment\<close>



subsection \<open>Status changes\<close>

text \<open>C2 as stated fails. The demo administrator asks for status Open on complaint 2, whose
  status is Open already: Open is not among the destinations of Open and the requested status
  does not differ from the current one, yet the operation reports success and writes an audit
  entry.\<close>

theorem status_change_admin_same_status_counterexample:
  "Option.bind (user (request_of 1 POST (empty_form\<lparr>post_status := Some ''open''\<rparr>))) profile
     = Some \<lparr>profile_tenant = 1, profile_role = ROLE_ADMIN\<rparr>
   \<and> status seed_complaint2 = STATUS_OPEN
   \<and> STATUS_OPEN \<notin> set (valid_transitions STATUS_OPEN)
   \<and> snd (complaint_update_status (at_time 1) seed_data
            (request_of 1 POST (empty_form\<lparr>post_status := Some ''open''\<rparr>)) 2)
       = ([messages_success ''Status updated to Open.''], redirect_complaint_detail 2)
   \<and> length (audit_logs (fst (complaint_update_status (at_time 1) seed_data
            (request_of 1 POST (empty_form\<lparr>post_status := Some ''open''\<rparr>)) 2)))
       = Suc (length (audit_logs seed_data))"
proof -
  let ?req = "request_of 1 POST (empty_form\<lparr>post_status := Some ''open''\<rparr>)"
  let ?p = "\<lparr>profile_tenant = 1, profile_role = ROLE_ADMIN\<rparr>"
  have h1: "user ?req = Some (seed_user 1 ''admin'' 1 ROLE_ADMIN)"
    by (simp add: request_of_simps seed_get_user)
  have h2: "profile (seed_user 1 ''admin'' 1 ROLE_ADMIN) = Some ?p"
    by (simp add: seed_user_simps)
  have h3: "get_object_or_404 seed_data 2 (profile_tenant ?p) = Some seed_complaint2"
    by (simp add: get_object_or_404_def seed_complaints seed_complaint2_def)
  have h4: "Option.bind (post_status (POST_data ?req)) status_of_value = Some STATUS_OPEN"
    by (simp add: request_of_simps empty_form_def status_of_value_def)
  have h5: "http_method ?req = POST"
    by (simp add: request_of_simps)
  show ?thesis
    using h1 h2 h3 h4 h5
    by (simp add: update_status_eval [OF h1 h2] update_status_body_eval [OF h1 h2] is_admin_def
          audit_logs_create_audit_log audit_logs_update_complaint seed_complaint2_def
          del: One_nat_def)
qed

text \<open>C2, amended. An actor with a profile asks for a status change on a complaint of their
  tenant. If the operation succeeds, the requested status is a destination of the current
  status in the table or the actor is an Administrator; the requested status is stored and
  one status-change audit entry is written. If it does not succeed, the store is left as it
  was, audit trail included. An Administrator's POST of any of the four statuses succeeds,
  the current status included. A request by another actor for a status outside the table
  does not succeed.\<close>

theorem status_change:
  assumes "user request = Some u" and "profile u = Some p"
    and "get_object_or_404 s pk (profile_tenant p) = Some c"
  shows "(succeeded (complaint_update_status e s request pk) \<longrightarrow>
            (\<exists>st entry.
               Option.bind (post_status (POST_data request)) status_of_value = Some st
               \<and> (st \<in> set (valid_transitions (status c)) \<or> is_admin p)
               \<and> map_of (complaints (fst (complaint_update_status e s request pk))) pk
                   = Some (save e s (c\<lparr>status := st\<rparr>))
               \<and> audit_logs (fst (complaint_update_status e s request pk)) = entry # audit_logs s
               \<and> log_action entry = ACTION_STATUS_CHANGE \<and> log_complaint entry = pk))
       \<and> (\<not> succeeded (complaint_update_status e s request pk) \<longrightarrow>
            fst (complaint_update_status e s request pk) = s)
       \<and> (is_admin p \<and> http_method request = POST
            \<and> Option.bind (post_status (POST_data request)) status_of_value \<noteq> None
          \<longrightarrow> succeeded (complaint_update_status e s request pk))
       \<and> (\<not> is_admin p
            \<and> (\<forall>st. Option.bind (post_status (POST_data request)) status_of_value = Some st
                     \<longrightarrow> st \<notin> set (valid_transitions (status c)))
          \<longrightarrow> \<not> succeeded (complaint_update_status e s request pk))"
proof (cases "profile_role p \<in> {ROLE_HELPDESK, ROLE_SUPPORT, ROLE_MANAGER, ROLE_ADMIN}
              \<and> http_method request = POST \<and> is_admin p")
  case gate: True
  have row: "map_of (complaints s) pk = Some c"
    using assms(3) by (rule get_object_row)
  show ?thesis
  proof (cases "Option.bind (post_status (POST_data request)) status_of_value")
    case None
    then show ?thesis
      using gate assms(3)
      by (simp add: update_status_eval [OF assms(1,2)] update_status_body_eval [OF assms(1,2)]
            succeeded_simps)
  next
    case (Some st)
    then show ?thesis
      using gate assms(3) map_of_update_complaint [OF row]
      by (simp add: update_status_eval [OF assms(1,2)] update_status_body_eval [OF assms(1,2)]
            succeeded_simps complaints_create_audit_log audit_logs_create_audit_log
            audit_logs_update_complaint)
  qed
next
  case False
  have "is_admin p \<Longrightarrow> profile_role p \<in> {ROLE_HELPDESK, ROLE_SUPPORT, ROLE_MANAGER, ROLE_ADMIN}"
    by (simp add: is_admin_def)
  with False have "\<not> succeeded (complaint_update_status e s request pk)
                   \<and> fst (complaint_update_status e s request pk) = s"
    using assms(3)
    by (auto simp add: update_status_eval [OF assms(1,2)] update_status_body_eval [OF assms(1,2)]
          succeeded_simps split: option.splits)
  with False show ?thesis
    using \<open>is_admin p \<Longrightarrow> profile_role p \<in> {ROLE_HELPDESK, ROLE_SUPPORT, ROLE_MANAGER, ROLE_ADMIN}\<close>
    by auto
qed

theorem status_change_witness:
  "is_admin \<lparr>profile_tenant = 1, profile_role = ROLE_ADMIN\<rparr>
   \<and> succeeded (complaint_update_status (at_time 4) seed_data
        (request_of 1 POST (empty_form\<lparr>post_status := Some ''resolved''\<rparr>)) 2)
   \<and> map_of (complaints (fst (complaint_update_status (at_time 4) seed_data
        (request_of 1 POST (empty_form\<lparr>post_status := Some ''resolved''\<rparr>)) 2))) 2
       = Some (save (at_time 4) seed_data (seed_complaint2\<lparr>status := STATUS_RESOLVED\<rparr>))"
proof -
  let ?req = "request_of 1 POST (empty_form\<lparr>post_status := Some ''resolved''\<rparr>)"
  let ?p = "\<lparr>profile_tenant = 1, profile_role = ROLE_ADMIN\<rparr>"
  have h1: "user ?req = Some (seed_user 1 ''admin'' 1 ROLE_ADMIN)"
    by (simp add: request_of_simps seed_get_user)
  have h2: "profile (seed_user 1 ''admin'' 1 ROLE_ADMIN) = Some ?p"
    by (simp add: seed_user_simps)
  have h3: "get_object_or_404 seed_data 2 (profile_tenant ?p) = Some seed_complaint2"
    by (simp add: get_object_or_404_def seed_complaints seed_complaint2_def)
  have h4: "Option.bind (post_status (POST_data ?req)) status_of_value = Some STATUS_RESOLVED"
    by (simp add: request_of_simps empty_form_def status_of_value_def)
  have h5: "http_method ?req = POST"
    by (simp add: request_of_simps)
  have h6: "is_admin ?p"
    by (simp add: is_admin_def)
  show ?thesis
    using h4 h5 h6 status_change [OF h1 h2 h3, of "at_time 4"]
    by auto
qed

text \<open>C5 as stated fails. The demo administrator asks for status Closed on complaint 2, whose
  status is Open: the status-change operation reports success and the stored status is
  Closed.\<close>

theorem status_change_to_closed_counterexample:
  "status seed_complaint2 = STATUS_OPEN
   \<and> snd (complaint_update_status (at_time 5) seed_data
            (request_of 1 POST (empty_form\<lparr>post_status := Some ''closed''\<rparr>)) 2)
       = ([messages_success ''Status updated to Closed.''], redirect_complaint_detail 2)
   \<and> map_option status
        (map_of (complaints (fst (complaint_update_status (at_time 5) seed_data
            (request_of 1 POST (empty_form\<lparr>post_status := Some ''closed''\<rparr>)) 2))) 2)
       = Some STATUS_CLOSED"
proof -
  let ?req = "request_of 1 POST (empty_form\<lparr>post_status := Some ''closed''\<rparr>)"
  let ?p = "\<lparr>profile_tenant = 1, profile_role = ROLE_ADMIN\<rparr>"
  have h1: "user ?req = Some (seed_user 1 ''admin'' 1 ROLE_ADMIN)"
    by (simp add: request_of_simps seed_get_user)
  have h2: "profile (seed_user 1 ''admin'' 1 ROLE_ADMIN) = Some ?p"
    by (simp add: seed_user_simps)
  have h3: "get_object_or_404 seed_data 2 (profile_tenant ?p) = Some seed_complaint2"
    by (simp add: get_object_or_404_def seed_complaints seed_complaint2_def)
  have h4: "Option.bind (post_status (POST_data ?req)) status_of_value = Some STATUS_CLOSED"
    by (simp add: request_of_simps empty_form_def status_of_value_def)
  have h5: "http_method ?req = POST"
    by (simp add: request_of_simps)
  have row: "map_of (complaints seed_data) 2 = Some seed_complaint2"
    by (fact seed_complaints)
  have st: "status seed_complaint2 = STATUS_OPEN"
    by (simp add: seed_complaint2_def)
  show ?thesis
    using h3 h4 h5 st map_of_update_complaint [OF row]
    by (simp add: update_status_eval [OF h1 h2] update_status_body_eval [OF h1 h2] is_admin_def
          complaints_create_audit_log save_status del: One_nat_def)
qed

text \<open>C5, amended. The status-change operation does not exclude Closed as a target. Its form
  accepts \<^verbatim>\<open>'closed'\<close> like the other three statuses, and an Administrator's POST of it for
  a complaint of their tenant succeeds from every current status: the stored status is Closed,
  and \<open>closed_at\<close> is the clock if it was unset. Closed is thus reachable through this
  operation as well as through the consumer's close operation.\<close>

theorem status_change_to_closed:
  assumes "user request = Some u" and "profile u = Some p" and "is_admin p"
    and "http_method request = POST"
    and "get_object_or_404 s pk (profile_tenant p) = Some c"
    and "post_status (POST_data request) = Some ''closed''"
  shows "ComplaintStatusForm_is_valid (POST_data request) c
           = Some (c\<lparr>status := STATUS_CLOSED\<rparr>, STATUS_CLOSED)
       \<and> succeeded (complaint_update_status e s request pk)
       \<and> (\<exists>c'. map_of (complaints (fst (complaint_update_status e s request pk))) pk = Some c'
              \<and> status c' = STATUS_CLOSED
              \<and> closed_at c' = (case closed_at c of None \<Rightarrow> Some (now e) | Some t \<Rightarrow> Some t))"
proof -
  have row: "map_of (complaints s) pk = Some c"
    using assms(5) by (rule get_object_row)
  have v: "status_of_value ''closed'' = Some STATUS_CLOSED"
    by (simp add: status_of_value_def)
  have role: "profile_role p \<in> {ROLE_HELPDESK, ROLE_SUPPORT, ROLE_MANAGER, ROLE_ADMIN}"
    using assms(3) by (simp add: is_admin_def)
  have form: "ComplaintStatusForm_is_valid (POST_data request) c
                = Some (c\<lparr>status := STATUS_CLOSED\<rparr>, STATUS_CLOSED)"
    using assms(6) v by (simp add: ComplaintStatusForm_is_valid_def)
  have run: "succeeded (complaint_update_status e s request pk)
       \<and> (\<exists>c'. map_of (complaints (fst (complaint_update_status e s request pk))) pk = Some c'
              \<and> status c' = STATUS_CLOSED
              \<and> closed_at c' = (case closed_at c of None \<Rightarrow> Some (now e) | Some t \<Rightarrow> Some t))"
    using assms(3,4,5,6) v role map_of_update_complaint [OF row]
    by (simp add: update_status_eval [OF assms(1,2)] update_status_body_eval [OF assms(1,2)]
          succeeded_simps complaints_create_audit_log save_status save_closed_at)
  show ?thesis using form run by blast
qed

theorem status_change_to_closed_witness:
  "is_admin \<lparr>profile_tenant = 1, profile_role = ROLE_ADMIN\<rparr>
   \<and> status seed_complaint1 = STATUS_IN_PROGRESS
   \<and> succeeded (complaint_update_status (at_time 5) seed_data
        (request_of 1 POST (empty_form\<lparr>post_status := Some ''closed''\<rparr>)) 1)
   \<and> (\<exists>c'. map_of (complaints (fst (complaint_update_status (at_time 5) seed_data
                (request_of 1 POST (empty_form\<lparr>post_status := Some ''closed''\<rparr>)) 1))) 1
              = Some c'
          \<and> status c' = STATUS_CLOSED \<and> closed_at c' = Some 5)"
proof -
  let ?req = "request_of 1 POST (empty_form\<lparr>post_status := Some ''closed''\<rparr>)"
  let ?p = "\<lparr>profile_tenant = 1, profile_role = ROLE_ADMIN\<rparr>"
  have h1: "user ?req = Some (seed_user 1 ''admin'' 1 ROLE_ADMIN)"
    by (simp add: request_of_simps seed_get_user)
  have h2: "profile (seed_user 1 ''admin'' 1 ROLE_ADMIN) = Some ?p"
    by (simp add: seed_user_simps)
  have h3: "is_admin ?p"
    by (simp add: is_admin_def)
  have h4: "http_method ?req = POST"
    by (simp add: request_of_simps)
  have h5: "get_object_or_404 seed_data 1 (profile_tenant ?p) = Some seed_complaint1"
    by (simp add: get_object_or_404_def seed_complaints seed_complaint1_def)
  have h6: "post_status (POST_data ?req) = Some ''closed''"
    by (simp add: request_of_simps empty_form_def)
  have h7: "status seed_complaint1 = STATUS_IN_PROGRESS" "closed_at seed_complaint1 = None"
    by (simp_all add: seed_complaint1_def)
  have h8: "now (at_time 5) = 5"
    by (simp add: at_time_def)
  show ?thesis
    using h3 h7 h8 status_change_to_closed [OF h1 h2 h3 h4 h5 h6, of "at_time 5"]
    by (simp del: One_nat_def)
qed

subsection \<open>Closed complaints\<close>

text \<open>C4 as stated fails. The demo help desk agent assigns \<open>support1\<close> to complaint 4, whose
  status is Closed and which had no assignee: the operation reports success and the stored
  complaint has the new assignee.\<close>

theorem closed_complaint_assigned_counterexample:
  "status seed_complaint4 = STATUS_CLOSED
   \<and> assigned_to seed_complaint4 = None
   \<and> snd (complaint_assign (at_time 6) seed_data
            (request_of 3 POST (empty_form\<lparr>post_assigned_to := Some 4\<rparr>)) 4)
       = ([messages_success ''Complaint assigned to support1.''], redirect_complaint_detail 4)
   \<and> map_option assigned_to
        (map_of (complaints (fst (complaint_assign (at_time 6) seed_data
            (request_of 3 POST (empty_form\<lparr>post_assigned_to := Some 4\<rparr>)) 4))) 4)
       = Some (Some 4)"
proof -
  let ?req = "request_of 3 POST (empty_form\<lparr>post_assigned_to := Some 4\<rparr>)"
  let ?p = "\<lparr>profile_tenant = 1, profile_role = ROLE_HELPDESK\<rparr>"
  have h1: "user ?req = Some (seed_user 3 ''helpdesk1'' 1 ROLE_HELPDESK)"
    by (simp add: request_of_simps seed_get_user)
  have h2: "profile (seed_user 3 ''helpdesk1'' 1 ROLE_HELPDESK) = Some ?p"
    by (simp add: seed_user_simps)
  have h3: "get_object_or_404 seed_data 4 (profile_tenant ?p) = Some seed_complaint4"
    by (simp add: get_object_or_404_def seed_complaints seed_complaint4_def)
  have h4: "AssignmentForm_is_valid seed_data (POST_data ?req) (profile_tenant ?p)
              = Some (seed_user 4 ''support1'' 1 ROLE_SUPPORT)"
    by (simp add: request_of_simps empty_form_def AssignmentForm_is_valid_def seed_get_user
          seed_user_simps)
  have h5: "http_method ?req = POST"
    by (simp add: request_of_simps)
  have row: "map_of (complaints seed_data) 4 = Some seed_complaint4"
    by (fact seed_complaints)
  have st: "status seed_complaint4 = STATUS_CLOSED" "assigned_to seed_complaint4 = None"
    by (simp_all add: seed_complaint4_def)
  show ?thesis
    using h3 h4 h5 st map_of_update_complaint [OF row]
    by (simp add: assign_eval [OF h1 h2] assign_body_eval [OF h1 h2]
          complaints_create_audit_log save_assigned_to seed_user_simps del: One_nat_def)
qed

text \<open>C4, amended. For a complaint whose status is Closed, in the actor's tenant. The close
  operation leaves the store as it was; asked by the submitter, it is refused with the message
  that only resolved complaints can be closed. Viewing leaves the store as it was, and so does
  a status change asked for by an actor who is not an Administrator. Assignment is not
  blocked: with a permitted role, a POST and a valid assignee it succeeds and stores the
  complaint, saved, with the new assignee and its status still Closed; otherwise it leaves the
  store as it was. Adding resolution notes is not blocked: with a permitted role, a POST and
  valid notes it succeeds and stores the complaint, saved, with the new notes and its status
  still Closed; otherwise it leaves the store as it was. An Administrator's status change is
  not blocked either: a POST of any of the four statuses succeeds and stores the complaint,
  saved, with that status.\<close>

theorem closed_complaint:
  assumes "user request = Some u" and "profile u = Some p"
    and "get_object_or_404 s pk (profile_tenant p) = Some c"
    and "status c = STATUS_CLOSED"
  shows "fst (complaint_close e s request pk) = s
       \<and> (submitted_by c = Some (uid u) \<longrightarrow>
            complaint_close e s request pk
              = (s, [messages_error ''Only resolved complaints can be closed.''],
                 redirect_complaint_detail pk))
       \<and> fst (complaint_detail e s request pk) = s
       \<and> (\<not> is_admin p \<longrightarrow> fst (complaint_update_status e s request pk) = s)
       \<and> (is_admin p \<and> http_method request = POST
            \<and> Option.bind (post_status (POST_data request)) status_of_value = Some st
          \<longrightarrow> succeeded (complaint_update_status e s request pk)
              \<and> map_of (complaints (fst (complaint_update_status e s request pk))) pk
                  = Some (save e s (c\<lparr>status := st\<rparr>))
              \<and> status (save e s (c\<lparr>status := st\<rparr>)) = st)
       \<and> (profile_role p \<in> {ROLE_HELPDESK, ROLE_MANAGER, ROLE_ADMIN}
            \<and> http_method request = POST
            \<and> AssignmentForm_is_valid s (POST_data request) (profile_tenant p) = Some a
          \<longrightarrow> succeeded (complaint_assign e s request pk)
              \<and> map_of (complaints (fst (complaint_assign e s request pk))) pk
                  = Some (save e s (c\<lparr>assigned_to := Some (uid a)\<rparr>))
              \<and> assigned_to (save e s (c\<lparr>assigned_to := Some (uid a)\<rparr>)) = Some (uid a)
              \<and> status (save e s (c\<lparr>assigned_to := Some (uid a)\<rparr>)) = STATUS_CLOSED)
       \<and> (\<not> (profile_role p \<in> {ROLE_HELPDESK, ROLE_MANAGER, ROLE_ADMIN}
               \<and> http_method request = POST
               \<and> AssignmentForm_is_valid s (POST_data request) (profile_tenant p) \<noteq> None)
          \<longrightarrow> fst (complaint_assign e s request pk) = s)
       \<and> (profile_role p \<in> {ROLE_SUPPORT, ROLE_MANAGER, ROLE_ADMIN}
            \<and> http_method request = POST
            \<and> ResolutionForm_is_valid (POST_data request) = Some n
          \<longrightarrow> succeeded (complaint_add_resolution e s request pk)
              \<and> map_of (complaints (fst (complaint_add_resolution e s request pk))) pk
                  = Some (save e s (c\<lparr>resolution_notes := n\<rparr>))
              \<and> resolution_notes (save e s (c\<lparr>resolution_notes := n\<rparr>)) = n
              \<and> status (save e s (c\<lparr>resolution_notes := n\<rparr>)) = STATUS_CLOSED)
       \<and> (\<not> (profile_role p \<in> {ROLE_SUPPORT, ROLE_MANAGER, ROLE_ADMIN}
               \<and> http_method request = POST
               \<and> ResolutionForm_is_valid (POST_data request) \<noteq> None)
          \<longrightarrow> fst (complaint_add_resolution e s request pk) = s)"
proof -
  have row: "map_of (complaints s) pk = Some c"
    using assms(3) by (rule get_object_row)
  have cl: "fst (complaint_close e s request pk) = s"
    using assms(4) by (simp add: close_eval [OF assms(1,2,3)])
  have cl2: "submitted_by c = Some (uid u) \<longrightarrow>
            complaint_close e s request pk
              = (s, [messages_error ''Only resolved complaints can be closed.''],
                 redirect_complaint_detail pk)"
    using assms(4) by (simp add: close_eval [OF assms(1,2,3)])
  have dt: "fst (complaint_detail e s request pk) = s"
    using detail_unchanged by blast
  have us: "\<not> is_admin p \<longrightarrow> fst (complaint_update_status e s request pk) = s"
    using assms(3)
    by (simp add: update_status_eval [OF assms(1,2)] update_status_body_eval [OF assms(1,2)]
          split: option.splits)
  have ad: "is_admin p \<and> http_method request = POST
            \<and> Option.bind (post_status (POST_data request)) status_of_value = Some st
          \<longrightarrow> succeeded (complaint_update_status e s request pk)
              \<and> map_of (complaints (fst (complaint_update_status e s request pk))) pk
                  = Some (save e s (c\<lparr>status := st\<rparr>))
              \<and> status (save e s (c\<lparr>status := st\<rparr>)) = st"
  proof (intro impI, elim conjE)
    assume a: "is_admin p" and m: "http_method request = POST"
      and f: "Option.bind (post_status (POST_data request)) status_of_value = Some st"
    have role: "profile_role p \<in> {ROLE_HELPDESK, ROLE_SUPPORT, ROLE_MANAGER, ROLE_ADMIN}"
      using a by (simp add: is_admin_def)
    show "succeeded (complaint_update_status e s request pk)
              \<and> map_of (complaints (fst (complaint_update_status e s request pk))) pk
                  = Some (save e s (c\<lparr>status := st\<rparr>))
              \<and> status (save e s (c\<lparr>status := st\<rparr>)) = st"
      using a m f role assms(3) map_of_update_complaint [OF row]
      by (simp add: update_status_eval [OF assms(1,2)] update_status_body_eval [OF assms(1,2)]
            succeeded_simps complaints_create_audit_log save_status)
  qed
  have asg1: "profile_role p \<in> {ROLE_HELPDESK, ROLE_MANAGER, ROLE_ADMIN}
            \<and> http_method request = POST
            \<and> AssignmentForm_is_valid s (POST_data request) (profile_tenant p) = Some a
          \<longrightarrow> succeeded (complaint_assign e s request pk)
              \<and> map_of (complaints (fst (complaint_assign e s request pk))) pk
                  = Some (save e s (c\<lparr>assigned_to := Some (uid a)\<rparr>))
              \<and> assigned_to (save e s (c\<lparr>assigned_to := Some (uid a)\<rparr>)) = Some (uid a)
              \<and> status (save e s (c\<lparr>assigned_to := Some (uid a)\<rparr>)) = STATUS_CLOSED"
  proof
    assume g: "profile_role p \<in> {ROLE_HELPDESK, ROLE_MANAGER, ROLE_ADMIN}
            \<and> http_method request = POST
            \<and> AssignmentForm_is_valid s (POST_data request) (profile_tenant p) = Some a"
    have eq: "c\<lparr>assigned_to := Some (uid a), status := STATUS_CLOSED\<rparr>
                = c\<lparr>assigned_to := Some (uid a)\<rparr>"
      using assms(4) by simp
    show "succeeded (complaint_assign e s request pk)
              \<and> map_of (complaints (fst (complaint_assign e s request pk))) pk
                  = Some (save e s (c\<lparr>assigned_to := Some (uid a)\<rparr>))
              \<and> assigned_to (save e s (c\<lparr>assigned_to := Some (uid a)\<rparr>)) = Some (uid a)
              \<and> status (save e s (c\<lparr>assigned_to := Some (uid a)\<rparr>)) = STATUS_CLOSED"
      using g assms(3,4) map_of_update_complaint [OF row]
      by (simp add: assign_eval [OF assms(1,2)] assign_body_eval [OF assms(1,2)]
            succeeded_simps complaints_create_audit_log eq save_status save_assigned_to)
  qed
  have asg2: "\<not> (profile_role p \<in> {ROLE_HELPDESK, ROLE_MANAGER, ROLE_ADMIN}
               \<and> http_method request = POST
               \<and> AssignmentForm_is_valid s (POST_data request) (profile_tenant p) \<noteq> None)
          \<longrightarrow> fst (complaint_assign e s request pk) = s"
    using assms(3)
    by (auto simp add: assign_eval [OF assms(1,2)] assign_body_eval [OF assms(1,2)])
  have res1: "profile_role p \<in> {ROLE_SUPPORT, ROLE_MANAGER, ROLE_ADMIN}
            \<and> http_method request = POST
            \<and> ResolutionForm_is_valid (POST_data request) = Some n
          \<longrightarrow> succeeded (complaint_add_resolution e s request pk)
              \<and> map_of (complaints (fst (complaint_add_resolution e s request pk))) pk
                  = Some (save e s (c\<lparr>resolution_notes := n\<rparr>))
              \<and> resolution_notes (save e s (c\<lparr>resolution_notes := n\<rparr>)) = n
              \<and> status (save e s (c\<lparr>resolution_notes := n\<rparr>)) = STATUS_CLOSED"
    using assms(3,4) map_of_update_complaint [OF row]
    by (simp add: add_resolution_eval [OF assms(1,2)] add_resolution_body_eval [OF assms(1,2)]
          succeeded_simps complaints_create_audit_log save_status save_resolution_notes)
  have res2: "\<not> (profile_role p \<in> {ROLE_SUPPORT, ROLE_MANAGER, ROLE_ADMIN}
               \<and> http_method request = POST
               \<and> ResolutionForm_is_valid (POST_data request) \<noteq> None)
          \<longrightarrow> fst (complaint_add_resolution e s request pk) = s"
    using assms(3)
    by (auto simp add: add_resolution_eval [OF assms(1,2)]
          add_resolution_body_eval [OF assms(1,2)])
  show ?thesis
    by (intro conjI) (rule cl cl2 dt us ad asg1 asg2 res1 res2)+
qed


theorem closed_complaint_witness:
  "status seed_complaint4 = STATUS_CLOSED
   \<and> submitted_by seed_complaint4 = Some 6
   \<and> complaint_close (at_time 6) seed_data (request_of 6 POST empty_form) 4
       = (seed_data, [messages_error ''Only resolved complaints can be closed.''],
          redirect_complaint_detail 4)
   \<and> fst (complaint_update_status (at_time 6) seed_data
        (request_of 2 POST (empty_form\<lparr>post_status := Some ''open'',
           post_assigned_to := Some 4, post_resolution_notes := Some ''Done''\<rparr>)) 4) = seed_data
   \<and> succeeded (complaint_assign (at_time 6) seed_data
        (request_of 2 POST (empty_form\<lparr>post_status := Some ''open'',
           post_assigned_to := Some 4, post_resolution_notes := Some ''Done''\<rparr>)) 4)
   \<and> map_of (complaints (fst (complaint_assign (at_time 6) seed_data
        (request_of 2 POST (empty_form\<lparr>post_status := Some ''open'',
           post_assigned_to := Some 4, post_resolution_notes := Some ''Done''\<rparr>)) 4))) 4
       = Some (save (at_time 6) seed_data (seed_complaint4\<lparr>assigned_to := Some 4\<rparr>))
   \<and> succeeded (complaint_add_resolution (at_time 6) seed_data
        (request_of 2 POST (empty_form\<lparr>post_status := Some ''open'',
           post_assigned_to := Some 4, post_resolution_notes := Some ''Done''\<rparr>)) 4)
   \<and> map_of (complaints (fst (complaint_add_resolution (at_time 6) seed_data
        (request_of 2 POST (empty_form\<lparr>post_status := Some ''open'',
           post_assigned_to := Some 4, post_resolution_notes := Some ''Done''\<rparr>)) 4))) 4
       = Some (save (at_time 6) seed_data (seed_complaint4\<lparr>resolution_notes := ''Done''\<rparr>))
   \<and> succeeded (complaint_update_status (at_time 6) seed_data
        (request_of 1 POST (empty_form\<lparr>post_status := Some ''open''\<rparr>)) 4)
   \<and> map_of (complaints (fst (complaint_update_status (at_time 6) seed_data
        (request_of 1 POST (empty_form\<lparr>post_status := Some ''open''\<rparr>)) 4))) 4
       = Some (save (at_time 6) seed_data (seed_complaint4\<lparr>status := STATUS_OPEN\<rparr>))"
proof -
  let ?owner = "request_of 6 POST empty_form"
  let ?mgr = "request_of 2 POST (empty_form\<lparr>post_status := Some ''open'',
           post_assigned_to := Some 4, post_resolution_notes := Some ''Done''\<rparr>)"
  let ?adm = "request_of 1 POST (empty_form\<lparr>post_status := Some ''open''\<rparr>)"
  let ?pc = "\<lparr>profile_tenant = 1, profile_role = ROLE_CONSUMER\<rparr>"
  let ?pm = "\<lparr>profile_tenant = 1, profile_role = ROLE_MANAGER\<rparr>"
  let ?pa = "\<lparr>profile_tenant = 1, profile_role = ROLE_ADMIN\<rparr>"
  have st: "status seed_complaint4 = STATUS_CLOSED"
    by (simp add: seed_complaint4_def)
  have sub: "submitted_by seed_complaint4 = Some 6"
    by (simp add: seed_complaint4_def)
  have o1: "user ?owner = Some (seed_user 6 ''consumer2'' 1 ROLE_CONSUMER)"
    by (simp add: request_of_simps seed_get_user)
  have o2: "profile (seed_user 6 ''consumer2'' 1 ROLE_CONSUMER) = Some ?pc"
    by (simp add: seed_user_simps)
  have o3: "get_object_or_404 seed_data 4 (profile_tenant ?pc) = Some seed_complaint4"
    by (simp add: get_object_or_404_def seed_complaints seed_complaint4_def)
  have o4: "submitted_by seed_complaint4 = Some (uid (seed_user 6 ''consumer2'' 1 ROLE_CONSUMER))"
    by (simp add: seed_complaint4_def seed_user_simps)
  have m1: "user ?mgr = Some (seed_user 2 ''manager1'' 1 ROLE_MANAGER)"
    by (simp add: request_of_simps seed_get_user)
  have m2: "profile (seed_user 2 ''manager1'' 1 ROLE_MANAGER) = Some ?pm"
    by (simp add: seed_user_simps)
  have m3: "get_object_or_404 seed_data 4 (profile_tenant ?pm) = Some seed_complaint4"
    by (simp add: get_object_or_404_def seed_complaints seed_complaint4_def)
  have m4: "\<not> is_admin ?pm"
    by (simp add: is_admin_def)
  have m5: "profile_role ?pm \<in> {ROLE_HELPDESK, ROLE_MANAGER, ROLE_ADMIN}
            \<and> http_method ?mgr = POST
            \<and> AssignmentForm_is_valid seed_data (POST_data ?mgr) (profile_tenant ?pm)
                = Some (seed_user 4 ''support1'' 1 ROLE_SUPPORT)"
    by (simp add: request_of_simps empty_form_def AssignmentForm_is_valid_def seed_get_user
          seed_user_simps)
  have m6: "profile_role ?pm \<in> {ROLE_SUPPORT, ROLE_MANAGER, ROLE_ADMIN}
            \<and> http_method ?mgr = POST
            \<and> ResolutionForm_is_valid (POST_data ?mgr) = Some ''Done''"
    by (simp add: request_of_simps empty_form_def ResolutionForm_is_valid_def clean_char_def
          strip_def is_space_def has_null_def)
  have m7: "uid (seed_user 4 ''support1'' 1 ROLE_SUPPORT) = 4"
    by (simp add: seed_user_simps)
  have a1: "user ?adm = Some (seed_user 1 ''admin'' 1 ROLE_ADMIN)"
    by (simp add: request_of_simps seed_get_user)
  have a2: "profile (seed_user 1 ''admin'' 1 ROLE_ADMIN) = Some ?pa"
    by (simp add: seed_user_simps)
  have a3: "get_object_or_404 seed_data 4 (profile_tenant ?pa) = Some seed_complaint4"
    by (simp add: get_object_or_404_def seed_complaints seed_complaint4_def)
  have a4: "is_admin ?pa \<and> http_method ?adm = POST
            \<and> Option.bind (post_status (POST_data ?adm)) status_of_value = Some STATUS_OPEN"
    by (simp add: is_admin_def request_of_simps empty_form_def status_of_value_def)
  note owner = closed_complaint [OF o1 o2 o3 st, of "at_time 6"]
  note mgr = closed_complaint [OF m1 m2 m3 st, of "at_time 6" _
      "seed_user 4 ''support1'' 1 ROLE_SUPPORT" "''Done''"]
  note adm = closed_complaint [OF a1 a2 a3 st, of "at_time 6" STATUS_OPEN]
  have c1: "complaint_close (at_time 6) seed_data ?owner 4
       = (seed_data, [messages_error ''Only resolved complaints can be closed.''],
          redirect_complaint_detail 4)"
    using owner o4 by simp
  have c2: "fst (complaint_update_status (at_time 6) seed_data ?mgr 4) = seed_data"
    using mgr m4 by simp
  have c3: "succeeded (complaint_assign (at_time 6) seed_data ?mgr 4)
       \<and> map_of (complaints (fst (complaint_assign (at_time 6) seed_data ?mgr 4))) 4
           = Some (save (at_time 6) seed_data (seed_complaint4\<lparr>assigned_to := Some 4\<rparr>))"
    using mgr m5 m7 by simp
  have c4: "succeeded (complaint_add_resolution (at_time 6) seed_data ?mgr 4)
       \<and> map_of (complaints (fst (complaint_add_resolution (at_time 6) seed_data ?mgr 4))) 4
           = Some (save (at_time 6) seed_data (seed_complaint4\<lparr>resolution_notes := ''Done''\<rparr>))"
    using mgr m6 by simp
  have c5: "succeeded (complaint_update_status (at_time 6) seed_data ?adm 4)
       \<and> map_of (complaints (fst (complaint_update_status (at_time 6) seed_data ?adm 4))) 4
           = Some (save (at_time 6) seed_data (seed_complaint4\<lparr>status := STATUS_OPEN\<rparr>))"
    using adm a4 by simp
  show ?thesis using st sub c1 c2 c3 c4 c5 by simp
qed

subsection \<open>The audit trail\<close>

text \<open>Each operation either reports success and puts one entry of its own kind, for the
  complaint it was asked about, on top of the audit trail, or leaves the whole store as it
  was.\<close>

lemma update_status_pairing:
  assumes "user request = Some u" and "profile u = Some p"
  shows "(succeeded (complaint_update_status e s request pk) \<longrightarrow>
            (\<exists>entry. audit_logs (fst (complaint_update_status e s request pk)) = entry # audit_logs s
               \<and> log_complaint entry = pk \<and> log_action entry = ACTION_STATUS_CHANGE))
       \<and> (\<not> succeeded (complaint_update_status e s request pk) \<longrightarrow>
            fst (complaint_update_status e s request pk) = s)"
  by (simp add: update_status_eval [OF assms] update_status_body_eval [OF assms] succeeded_simps
        audit_logs_create_audit_log audit_logs_update_complaint split: option.splits)

lemma assign_pairing:
  assumes "user request = Some u" and "profile u = Some p"
  shows "(succeeded (complaint_assign e s request pk) \<longrightarrow>
            (\<exists>entry. audit_logs (fst (complaint_assign e s request pk)) = entry # audit_logs s
               \<and> log_complaint entry = pk \<and> log_action entry = ACTION_ASSIGNED))
       \<and> (\<not> succeeded (complaint_assign e s request pk) \<longrightarrow>
            fst (complaint_assign e s request pk) = s)"
  by (simp add: assign_eval [OF assms] assign_body_eval [OF assms] succeeded_simps
        audit_logs_create_audit_log audit_logs_update_complaint split: option.splits)

lemma add_resolution_pairing:
  assumes "user request = Some u" and "profile u = Some p"
  shows "(succeeded (complaint_add_resolution e s request pk) \<longrightarrow>
            (\<exists>entry. audit_logs (fst (complaint_add_resolution e s request pk)) = entry # audit_logs s
               \<and> log_complaint entry = pk \<and> log_action entry = ACTION_RESOLUTION_ADDED))
       \<and> (\<not> succeeded (complaint_add_resolution e s request pk) \<longrightarrow>
            fst (complaint_add_resolution e s request pk) = s)"
  by (simp add: add_resolution_eval [OF assms] add_resolution_body_eval [OF assms] succeeded_simps
        audit_logs_create_audit_log audit_logs_update_complaint split: option.splits)

lemma close_pairing:
  assumes "user request = Some u" and "profile u = Some p"
  shows "(succeeded (complaint_close e s request pk) \<longrightarrow>
            (\<exists>entry. audit_logs (fst (complaint_close e s request pk)) = entry # audit_logs s
               \<and> log_complaint entry = pk \<and> log_action entry = ACTION_CLOSED))
       \<and> (\<not> succeeded (complaint_close e s request pk) \<longrightarrow>
            fst (complaint_close e s request pk) = s)"
proof (cases "get_object_or_404 s pk (profile_tenant p)")
  case None
  then show ?thesis
    by (simp add: close_eval_404 [OF assms] succeeded_simps)
next
  case (Some c)
  then show ?thesis
    by (simp add: close_eval [OF assms Some] succeeded_simps
          audit_logs_create_audit_log audit_logs_update_complaint)
qed

lemma operation_pairing:
  "(succeeded (urlpatterns op e s request pk) \<longrightarrow>
      (\<exists>entry. audit_logs (fst (urlpatterns op e s request pk)) = entry # audit_logs s
         \<and> log_complaint entry = pk \<and> audit_action op = Some (log_action entry)))
   \<and> (\<not> succeeded (urlpatterns op e s request pk) \<longrightarrow>
        fst (urlpatterns op e s request pk) = s)"
proof (cases "user request")
  case None
  then show ?thesis using no_user_unchanged [of request op e s pk] by simp
next
  case (Some u)
  show ?thesis
  proof (cases "profile u")
    case None
    then show ?thesis using no_profile_unchanged [OF Some, of op e s pk] by simp
  next
    case p: (Some p)
    show ?thesis
    proof (cases op)
      case url_complaint_detail
      then show ?thesis using detail_unchanged [of e s request pk] by simp
    next
      case url_complaint_update_status
      then show ?thesis using update_status_pairing [OF Some p, of e s pk] by auto
    next
      case url_complaint_assign
      then show ?thesis using assign_pairing [OF Some p, of e s pk] by auto
    next
      case url_complaint_add_resolution
      then show ?thesis using add_resolution_pairing [OF Some p, of e s pk] by auto
    next
      case url_complaint_close
      then show ?thesis using close_pairing [OF Some p, of e s pk] by auto
    qed
  qed
qed


lemma create_pairing:
  "(succeeded (complaint_create e s request x) \<longrightarrow>
      (\<exists>entry c. audit_logs (fst (complaint_create e s request x)) = entry # audit_logs s
         \<and> log_complaint entry = next_pk s \<and> log_action entry = ACTION_CREATED
         \<and> complaints (fst (complaint_create e s request x)) = complaints s @ [(next_pk s, c)]))
   \<and> (\<not> succeeded (complaint_create e s request x) \<longrightarrow>
        fst (complaint_create e s request x) = s)"
proof (cases "user request")
  case None
  then show ?thesis
    by (simp add: complaint_create_def login_required_def succeeded_simps)
next
  case (Some u)
  show ?thesis
  proof (cases "profile u")
    case None
    then show ?thesis
      using Some
      by (simp add: complaint_create_def login_required_def complaint_create_body_def
            succeeded_simps)
  next
    case p: (Some p)
    show ?thesis
    proof (cases "ComplaintForm_is_valid s (POST_data request) p")
      case None
      then show ?thesis
        using Some p
        by (simp add: complaint_create_def login_required_def complaint_create_body_def
              succeeded_simps)
    next
      case c: (Some c0)
      then show ?thesis
        using Some p
        by (simp add: complaint_create_def login_required_def complaint_create_body_def
              succeeded_simps Let_def audit_logs_create_audit_log complaints_create_audit_log)
    qed
  qed
qed

text \<open>C3. For each of the five complaint operations and for complaint creation, on any store
  and any request: when the operation succeeds, the audit trail after it is the audit trail
  before it with exactly one new entry in front, which names the complaint operated on (for
  creation, the new row) and carries the action kind of the operation; when the operation
  does not succeed, the store after it is the store before it, so neither a complaint nor the
  audit trail has changed.\<close>

theorem audit_pairing:
  "(succeeded (urlpatterns op e s request pk) \<longrightarrow>
      (\<exists>entry. audit_logs (fst (urlpatterns op e s request pk)) = entry # audit_logs s
         \<and> log_complaint entry = pk \<and> audit_action op = Some (log_action entry)))
   \<and> (\<not> succeeded (urlpatterns op e s request pk) \<longrightarrow>
        fst (urlpatterns op e s request pk) = s)
   \<and> (succeeded (complaint_create e s request x) \<longrightarrow>
      (\<exists>entry c. audit_logs (fst (complaint_create e s request x)) = entry # audit_logs s
         \<and> log_complaint entry = next_pk s \<and> log_action entry = ACTION_CREATED
         \<and> complaints (fst (complaint_create e s request x)) = complaints s @ [(next_pk s, c)]))
   \<and> (\<not> succeeded (complaint_create e s request x) \<longrightarrow>
        fst (complaint_create e s request x) = s)"
  using operation_pairing [of op e s request pk] create_pairing [of e s request x]
  by blast


theorem audit_pairing_witness:
  "succeeded (urlpatterns url_complaint_close (at_time 7) seed_data
      (request_of 6 POST (empty_form\<lparr>post_title := Some ''Late delivery'',
         post_description := Some ''The parcel came a week late.'',
         post_priority := Some ''high''\<rparr>)) 3)
   \<and> (\<exists>entry. audit_logs (fst (urlpatterns url_complaint_close (at_time 7) seed_data
          (request_of 6 POST (empty_form\<lparr>post_title := Some ''Late delivery'',
             post_description := Some ''The parcel came a week late.'',
             post_priority := Some ''high''\<rparr>)) 3)) = entry # audit_logs seed_data
        \<and> log_complaint entry = 3 \<and> log_action entry = ACTION_CLOSED)
   \<and> succeeded (complaint_create (at_time 7) seed_data
      (request_of 6 POST (empty_form\<lparr>post_title := Some ''Late delivery'',
         post_description := Some ''The parcel came a week late.'',
         post_priority := Some ''high''\<rparr>)) ())
   \<and> (\<exists>entry. audit_logs (fst (complaint_create (at_time 7) seed_data
          (request_of 6 POST (empty_form\<lparr>post_title := Some ''Late delivery'',
             post_description := Some ''The parcel came a week late.'',
             post_priority := Some ''high''\<rparr>)) ())) = entry # audit_logs seed_data
        \<and> log_complaint entry = 6 \<and> log_action entry = ACTION_CREATED)"
proof -
  let ?req = "request_of 6 POST (empty_form\<lparr>post_title := Some ''Late delivery'',
         post_description := Some ''The parcel came a week late.'',
         post_priority := Some ''high''\<rparr>)"
  let ?p = "\<lparr>profile_tenant = 1, profile_role = ROLE_CONSUMER\<rparr>"
  have h1: "user ?req = Some (seed_user 6 ''consumer2'' 1 ROLE_CONSUMER)"
    by (simp add: request_of_simps seed_get_user)
  have h2: "profile (seed_user 6 ''consumer2'' 1 ROLE_CONSUMER) = Some ?p"
    by (simp add: seed_user_simps)
  have h3: "get_object_or_404 seed_data 3 (profile_tenant ?p) = Some seed_complaint3"
    by (simp add: get_object_or_404_def seed_complaints seed_complaint3_def)
  have h4: "http_method ?req = POST"
    by (simp add: request_of_simps)
  have own: "submitted_by seed_complaint3 = Some (uid (seed_user 6 ''consumer2'' 1 ROLE_CONSUMER))"
    "status seed_complaint3 = STATUS_RESOLVED"
    by (simp_all add: seed_complaint3_def seed_user_simps)
  have s1: "succeeded (urlpatterns url_complaint_close (at_time 7) seed_data ?req 3)"
    using own h4 by (simp add: close_eval [OF h1 h2 h3] succeeded_simps)
  have s2: "succeeded (complaint_create (at_time 7) seed_data ?req ())"
    by code_simp
  have n: "next_pk seed_data = 6"
    by (simp add: seed_data_def)
  show ?thesis
    using s1 s2 n audit_pairing [of url_complaint_close "at_time 7" seed_data ?req 3 "()"]
    by auto
qed

end
